theory Spec2Isabelle
  imports Complex_Main "HOL-Library.Word"
begin

section \<open>The render session of the Octane add-on (render/session.cpp)\<close>

text \<open>
  The session drives an external render engine through an engine client and is driven
  itself by a controller thread. The embedding keeps the session's fields as a record,
  passes the session through every member function, and records every call made to a
  collaborator (engine client, scene, host session, progress callbacks, condition
  variable) in the field \<open>calls\<close>, in the order the code makes them. Times are the values
  \<open>time_dt()\<close> returns, taken as real numbers; rounding of \<open>double\<close> is not modelled.
  Mutexes are not modelled: every member function runs as one step.
\<close>

subsection \<open>Data\<close>

datatype ImageType = IMAGE_8BIT | IMAGE_FLOAT | IMAGE_FLOAT_TONEMAPPED

datatype FailReasons = NO_CONNECTION | WRONG_VERSION | NOT_ACTIVATED | FAIL_OTHER

datatype SceneExportTypes = NONE | EXPORT nat

datatype RenderPassId = RENDER_PASS_BEAUTY | RENDER_PASS nat

text \<open>
  \<open>ImageStat\<close>: only \<open>uiCurSamples\<close> (an unsigned 32-bit counter) takes part in a decision
  of the session; the other statistics are only printed into the status text.
\<close>

record ImageStat =
  uiCurSamples :: "32 word"
  iExpiryTime :: int

text \<open>
  \<open>params.samples\<close> is a C \<open>int\<close>; it is kept as its 32 bits, since the only arithmetic the
  session does with it is the comparison with the unsigned \<open>uiCurSamples\<close>, for which C
  converts it to unsigned.
\<close>

record SessionParams =
  interactive :: bool
  width :: int
  height :: int
  samples :: "32 word"
  hdr_tonemapped :: bool
  export_scene :: SceneExportTypes
  out_of_core_enabled :: bool
  out_of_core_mem_limit :: int
  out_of_core_gpu_headroom :: int
  deep_image :: bool
  output_path :: string
  image_stat :: ImageStat

text \<open>
  Modelled from the spec: \<open>BufferParams\<close> and \<open>DisplayBuffer\<close> (buffers.h, buffers.cpp) are
  not among the sources. The spec gives a frame buffer "pixel storage plus its declared
  parameters (width, height, pass layout)"; \<open>modified(params)\<close> "compares declared
  parameters", \<open>reset(params)\<close> "reallocates storage" for the new parameters and leaves a
  "freshly reset empty state", \<open>draw()\<close> "renders the current buffer to screen" and the
  session's draw "returns whether a drawable image is available".
\<close>

record BufferParams =
  buf_width :: int
  buf_height :: int
  buf_passes :: "nat list"

definition modified :: "BufferParams \<Rightarrow> BufferParams \<Rightarrow> bool" where
  "modified p q = (p \<noteq> q)"

record DisplayBuffer =
  buf_params :: BufferParams
  buf_image :: bool

definition DisplayBuffer_reset :: "BufferParams \<Rightarrow> DisplayBuffer \<Rightarrow> DisplayBuffer" where
  "DisplayBuffer_reset p d = d\<lparr>buf_params := p, buf_image := False\<rparr>"

definition DisplayBuffer_draw :: "DisplayBuffer \<Rightarrow> bool" where
  "DisplayBuffer_draw d = buf_image d"

text \<open>
  The scene, as far as the session reads and writes it: the camera's image size, the pass
  selection (\<open>scene->passes->oct_node\<close>) and the GPU mask of the kernel.
\<close>

record Scene =
  cam_width :: int
  cam_height :: int
  bUsePasses :: bool
  curPassType :: RenderPassId
  uiGPUs :: nat

text \<open>The host session (\<open>BlenderSession\<close>): the session reads its \<open>interactive\<close> flag.\<close>

record BlenderSession =
  host_interactive :: bool

text \<open>
  The progress tracker: cancellation flag and message, status texts and start time. The
  sample statistics of the status line are printed with \<open>printf\<close>; the model keeps the
  numbers that are printed instead of the text.
\<close>

datatype substatus_text = SubText string | SubSamples ImageStat "32 word"

record Progress =
  cancel :: bool
  cancel_message :: string
  status :: string
  substatus :: substatus_text
  progress_start_time :: real

text \<open>The engine client, as far as the session reads it.\<close>

record OctaneClient =
  connected :: bool
  fail_reason :: FailReasons
  sNetAddress :: string
  error_message :: string

text \<open>Calls to collaborators, recorded in the order they are made.\<close>

datatype call =
    SetExportType SceneExportTypes
  | SetOutputPath string
  | StartRender int int ImageType bool int int
  | PauseRender bool
  | ServerReset SceneExportTypes nat real bool
  | DownloadImageBuffer ImageType RenderPassId
  | ClearServerErrorMessage
  | CheckServerConnection
  | ServerClear
  | CameraTagUpdate
  | SceneServerUpdate bool nat nat
  | HostUpdateRenderImg
  | ProgressSetUpdate
  | ProgressRefreshCurInfo
  | ProgressResetCurSamples
  | NotifyAll

datatype error = NullDisplay | NullScene

record Session =
  params :: SessionParams
  server :: OctaneClient
  display :: "DisplayBuffer option"
  scene :: "Scene option"
  b_session :: "BlenderSession option"
  progress :: Progress
  start_time :: real
  reset_time :: real
  paused_time :: real
  display_outdated :: bool
  pause :: bool
  pass_name :: string
  frame_idx :: nat
  total_frames :: nat
  calls :: "call list"

subsection \<open>Progress and engine client primitives\<close>

definition emit :: "call \<Rightarrow> Session \<Rightarrow> Session" where
  "emit c s = s\<lparr>calls := calls s @ [c]\<rparr>"

definition get_cancel :: "Session \<Rightarrow> bool" where
  "get_cancel s = cancel (progress s)"

definition set_cancel :: "string \<Rightarrow> Session \<Rightarrow> Session" where
  "set_cancel m s = s\<lparr>progress := (progress s)\<lparr>cancel := True, cancel_message := m\<rparr>\<rparr>"

definition set_status :: "string \<Rightarrow> substatus_text \<Rightarrow> Session \<Rightarrow> Session" where
  "set_status st sub s = s\<lparr>progress := (progress s)\<lparr>status := st, substatus := sub\<rparr>\<rparr>"

definition set_start_time :: "real \<Rightarrow> Session \<Rightarrow> Session" where
  "set_start_time t s = s\<lparr>progress := (progress s)\<lparr>progress_start_time := t\<rparr>\<rparr>"

definition getServerErrorMessage :: "Session \<Rightarrow> string" where
  "getServerErrorMessage s = error_message (server s)"

definition clearServerErrorMessage :: "Session \<Rightarrow> Session" where
  "clearServerErrorMessage s =
     emit ClearServerErrorMessage (s\<lparr>server := (server s)\<lparr>error_message := []\<rparr>\<rparr>)"

text \<open>The colour format the session asks the engine client for (lines 169, 493, 497).\<close>

definition image_type :: "SessionParams \<Rightarrow> ImageType" where
  "image_type p =
     (if interactive p then IMAGE_8BIT
      else if hdr_tonemapped p then IMAGE_FLOAT_TONEMAPPED else IMAGE_FLOAT)"

subsection \<open>Constructor\<close>

text \<open>
  \<open>Session::Session\<close>. The freshly created engine client, display buffer and progress
  tracker are parameters: their constructors are not in session.cpp. The constructor
  does not assign \<open>pass_name\<close>, \<open>frame_idx\<close> and \<open>total_frames\<close> (\<open>start\<close> does); they
  are empty here. The worker thread handle is not modelled.
\<close>

definition Session_new ::
  "OctaneClient \<Rightarrow> DisplayBuffer \<Rightarrow> Progress \<Rightarrow> SessionParams \<Rightarrow> string \<Rightarrow> Session" where
  "Session_new srv0 d0 prog0 params0 out_path =
     \<lparr>params = params0,
      server = srv0,
      display = (if \<not> interactive params0 then None else Some d0),
      scene = None,
      b_session = None,
      progress = prog0,
      start_time = 0,
      reset_time = 0,
      paused_time = 0,
      display_outdated = False,
      pause = False,
      pass_name = [],
      frame_idx = 0,
      total_frames = 0,
      calls = [SetExportType (export_scene params0), SetOutputPath out_path]\<rparr>"

subsection \<open>Draw, reset, update\<close>

text \<open>
  \<open>Session::draw\<close>: the display buffer is dereferenced without a check; the statements
  after the first \<open>return\<close> are unreachable. The session is returned with the result, as
  the function leaves it.
\<close>

definition draw :: "BufferParams \<Rightarrow> Session \<Rightarrow> error + (bool \<times> Session)" where
  "draw buffer_params s =
     (case display s of
        None \<Rightarrow> Inl NullDisplay
      | Some d \<Rightarrow>
          if \<not> modified buffer_params (buf_params d) then Inr (DisplayBuffer_draw d, s)
          else Inr (False, s))"

text \<open>\<open>Session::reset_parameters\<close>; \<open>now\<close> is what \<open>time_dt()\<close> returns.\<close>

definition reset_parameters :: "real \<Rightarrow> BufferParams \<Rightarrow> Session \<Rightarrow> Session" where
  "reset_parameters now buffer_params s =
     (let s1 = (case display s of
                  None \<Rightarrow> s
                | Some d \<Rightarrow>
                    if modified buffer_params (buf_params d)
                    then s\<lparr>display := Some (DisplayBuffer_reset buffer_params d)\<rparr>
                    else s);
          s2 = s1\<lparr>start_time := now, paused_time := 0\<rparr>
      in if interactive (params s2) then set_start_time (start_time s2 + paused_time s2) s2
         else s2)"

text \<open>
  \<open>Session::reset\<close> and \<open>Session::update\<close>; \<open>t1\<close> and \<open>t2\<close> are the two readings of the
  clock (for \<open>reset_time\<close>, and inside \<open>reset_parameters\<close>). \<open>reset\<close> reads
  \<open>scene->kernel->uiGPUs\<close> without a check.
\<close>

definition reset :: "real \<Rightarrow> real \<Rightarrow> BufferParams \<Rightarrow> real \<Rightarrow> Session \<Rightarrow> error + Session" where
  "reset t1 t2 buffer_params mb_frame_time_sampling s =
     (let s1 = s\<lparr>display_outdated := True, reset_time := t1\<rparr>;
          s2 = reset_parameters t2 buffer_params s1
      in case scene s2 of
           None \<Rightarrow> Inl NullScene
         | Some sc \<Rightarrow>
             Inr (emit NotifyAll
                   (emit (ServerReset (export_scene (params s2)) (uiGPUs sc)
                            mb_frame_time_sampling (deep_image (params s2))) s2)))"

definition update :: "real \<Rightarrow> real \<Rightarrow> BufferParams \<Rightarrow> Session \<Rightarrow> Session" where
  "update t1 t2 buffer_params s =
     (let s1 = s\<lparr>display_outdated := True, reset_time := t1\<rparr>;
          s2 = reset_parameters t2 buffer_params s1
      in emit NotifyAll s2)"

subsection \<open>Sample target and pause\<close>

definition set_samples :: "32 word \<Rightarrow> Session \<Rightarrow> Session" where
  "set_samples samples0 s =
     (if samples0 \<noteq> samples (params s) then s\<lparr>params := (params s)\<lparr>samples := samples0\<rparr>\<rparr>
      else s)"

text \<open>
  \<open>Session::set_pause\<close>: the result says whether the condition variable was broadcast
  (the local \<open>notify\<close>).
\<close>

definition set_pause :: "bool \<Rightarrow> Session \<Rightarrow> bool \<times> Session" where
  "set_pause pause0 s =
     (let (notify, s1) = (if pause s \<noteq> pause0 then (True, s\<lparr>pause := pause0\<rparr>) else (False, s))
      in if notify then (notify, emit NotifyAll s1) else (notify, s1))"

subsection \<open>What the other threads and the collaborators do\<close>

text \<open>
  The render loop runs against an environment: the controller thread calls \<open>set_pause\<close>
  and \<open>set_samples\<close> and requests cancellation, the engine client records an error
  message, and the image statistics are overwritten by whoever pulls an image (the engine
  client's download, or the host session inside its callback, which holds a pointer to
  the session). An environment event is one such action; \<open>env_apply\<close> runs a list of them
  and says whether any of them broadcast the pause condition variable. \<open>CtlCancel\<close> is a
  cancellation reaching the progress tracker from outside, by \<open>set_cancel\<close> or by the
  callback the tracker polls. \<open>reset\<close> and \<open>update\<close> are not among the events.
\<close>

datatype env_event =
    CtlSetPause bool
  | CtlSetSamples "32 word"
  | CtlCancel string
  | EngineError string
  | NewImageStat ImageStat

fun env_step :: "env_event \<Rightarrow> Session \<Rightarrow> bool \<times> Session" where
  "env_step (CtlSetPause b) s = set_pause b s"
| "env_step (CtlSetSamples n) s = (False, set_samples n s)"
| "env_step (CtlCancel m) s = (False, set_cancel m s)"
| "env_step (EngineError m) s = (False, s\<lparr>server := (server s)\<lparr>error_message := m\<rparr>\<rparr>)"
| "env_step (NewImageStat st) s = (False, s\<lparr>params := (params s)\<lparr>image_stat := st\<rparr>\<rparr>)"

fun env_apply :: "env_event list \<Rightarrow> Session \<Rightarrow> bool \<times> Session" where
  "env_apply [] s = (False, s)"
| "env_apply (ev # evs) s =
     (let (n, s1) = env_step ev s; (m, s2) = env_apply evs s1 in (n \<or> m, s2))"

definition env_run :: "env_event list \<Rightarrow> Session \<Rightarrow> Session" where
  "env_run evs s = snd (env_apply evs s)"

text \<open>
  One wait on the pause condition variable: the clock before the wait, what happens while
  the worker waits, the clock after the wake-up. The wait returns only when one of the
  events broadcast the condition variable.
\<close>

record wait_env =
  w_start :: real
  w_events :: "env_event list"
  w_wake :: real

text \<open>
  What the environment does during one iteration of the render loop: events before the
  loop-top check; the waits of the pause loop; whether the scene reports a pending update;
  events between the loop top and the error check of line 174 (during the sleep, the scene
  push and the render start); the result of each \<open>downloadImageBuffer\<close> call with what
  happens during it; events after the download block and before the check of line 499
  (another thread may request cancellation at any moment, also when no download is made);
  what happens during the host callback \<open>update_render_img\<close>.
\<close>

record iter_env =
  at_top :: "env_event list"
  waits :: "wait_env list"
  need_update :: bool
  before_check :: "env_event list"
  download1 :: "bool \<times> env_event list"
  download2 :: "bool \<times> env_event list"
  before_notify :: "env_event list"
  host_update :: "env_event list"

definition downloadImageBuffer ::
  "bool \<times> env_event list \<Rightarrow> ImageType \<Rightarrow> RenderPassId \<Rightarrow> Session \<Rightarrow> bool \<times> Session" where
  "downloadImageBuffer resp ty passId s =
     (fst resp, env_run (snd resp) (emit (DownloadImageBuffer ty passId) s))"

subsection \<open>Status text\<close>

text \<open>\<open>Session::update_status_time\<close>; both arguments default to false in the calls without arguments.\<close>

definition update_status_time :: "bool \<Rightarrow> bool \<Rightarrow> Session \<Rightarrow> Session" where
  "update_status_time show_pause show_done s0 =
     (let s = emit CheckServerConnection s0;
          (st, sub) =
            (if connected (server s) then
               (let sub = (if uiCurSamples (image_stat (params s)) > 0
                           then SubSamples (image_stat (params s)) (samples (params s))
                           else SubText ''Waiting for image...'');
                    st0 = (case b_session s of
                             Some h \<Rightarrow> if \<not> host_interactive h then pass_name s else ''Interactive''
                           | None \<Rightarrow> ''Interactive'')
                in (st0 @ (if show_pause then '' - Paused''
                           else if show_done then '' - Done'' else '' - Rendering''), sub))
             else
               (case fail_reason (server s) of
                  NO_CONNECTION \<Rightarrow>
                    (''Not connected'',
                     SubText (''No Render-server at address '' @ [CHR 0x22] @ sNetAddress (server s) @ [CHR 0x22]))
                | WRONG_VERSION \<Rightarrow>
                    (''Wrong version'',
                     SubText (''Wrong Render-server version at address '' @ [CHR 0x22] @ sNetAddress (server s) @ [CHR 0x22]))
                | NOT_ACTIVATED \<Rightarrow>
                    (''Not activated'',
                     SubText (''Render-server at address '' @ [CHR 0x22] @ sNetAddress (server s) @ [CHR 0x22] @ '' is not activated''))
                | FAIL_OTHER \<Rightarrow>
                    (''Server error'',
                     SubText (''Error in Render-server at address '' @ [CHR 0x22] @ sNetAddress (server s) @ [CHR 0x22]))))
      in emit ProgressRefreshCurInfo (set_status st sub s))"

subsection \<open>Scene push and buffer refresh\<close>

text \<open>\<open>Session::update_scene_to_server\<close> (called with \<open>scene_locked\<close> false).\<close>

definition update_scene_to_server :: "iter_env \<Rightarrow> Session \<Rightarrow> error + Session" where
  "update_scene_to_server e s =
     (case scene s of
        None \<Rightarrow> Inl NullScene
      | Some sc \<Rightarrow>
          (let w = width (params s); h = height (params s);
               s1 = (if w \<noteq> cam_width sc \<or> h \<noteq> cam_height sc
                     then emit CameraTagUpdate
                            (s\<lparr>scene := Some (sc\<lparr>cam_width := w, cam_height := h\<rparr>)\<rparr>)
                     else s)
           in if export_scene (params s1) \<noteq> NONE \<or> need_update e
              then Inr (emit (SceneServerUpdate (interactive (params s1)) (frame_idx s1) (total_frames s1))
                          (set_status ''Updating Scene'' (SubText []) s1))
              else Inr s1))"

text \<open>\<open>Session::update_img_sample\<close>.\<close>

definition update_img_sample :: "iter_env \<Rightarrow> Session \<Rightarrow> Session" where
  "update_img_sample e s =
     update_status_time False False
       (case b_session s of
          Some h \<Rightarrow> env_run (host_update e) (emit HostUpdateRenderImg s)
        | None \<Rightarrow> s)"

definition pass_id :: "Scene \<Rightarrow> RenderPassId" where
  "pass_id sc = (if bUsePasses sc then curPassType sc else RENDER_PASS_BEAUTY)"

text \<open>
  \<open>Session::update_render_buffer\<close>. The condition of line 493 is evaluated left to right:
  the download is called only when the session is interactive, and \<open>b_session\<close> is read
  only when the download returned false.
\<close>

definition update_render_buffer :: "iter_env \<Rightarrow> Session \<Rightarrow> error + Session" where
  "update_render_buffer e s =
     (if get_cancel s then Inr s
      else case scene s of
        None \<Rightarrow> Inl NullScene
      | Some sc \<Rightarrow>
          (let (enter, s1) =
                 (if interactive (params s)
                  then (let (r, s') = downloadImageBuffer (download1 e) (image_type (params s)) (pass_id sc) s
                        in (\<not> r \<and> b_session s' \<noteq> None, s'))
                  else (False, s));
               (returned, s2) =
                 (if enter then
                    (if get_cancel s1 then (True, s1)
                     else (let s' = (if \<not> interactive (params s1) then update_img_sample e s1 else s1)
                           in (False, snd (downloadImageBuffer (download2 e) (image_type (params s'))
                                             (pass_id sc) s'))))
                  else (False, s1))
           in if returned then Inr s2
              else (let s3 = env_run (before_notify e) s2
                    in if get_cancel s3 then Inr s3
                       else if \<not> interactive (params s3) then Inr (update_img_sample e s3)
                       else Inr s3)))"

subsection \<open>The render loop\<close>

text \<open>Lines 174-177 and 189-192: an engine error becomes a cancellation.\<close>

definition check_server_error :: "Session \<Rightarrow> Session" where
  "check_server_error s =
     (if getServerErrorMessage s \<noteq> []
      then clearServerErrorMessage (set_cancel ''ERROR! Check console for detailed error messages.'' s)
      else s)"

text \<open>Line 205; the \<open>int\<close> target is converted to unsigned for the comparison.\<close>

definition done_pred :: "Session \<Rightarrow> bool" where
  "done_pred s =
     (\<not> interactive (params s) \<and> uiCurSamples (image_stat (params s)) \<ge> samples (params s))"

text \<open>
  The pause loop of lines 142-157. The result says whether the loop was left (true) or
  the worker is still waiting, no event having woken it (false).
\<close>

fun pause_wait :: "wait_env list \<Rightarrow> bool \<Rightarrow> Session \<Rightarrow> bool \<times> Session" where
  "pause_wait [] is_done s = (False, if pause s then emit (PauseRender True) s else s)"
| "pause_wait (w # ws) is_done s =
     (let s1 = (if pause s then emit (PauseRender True) s else s);
          pause_start = w_start w;
          (woken, s2) = env_apply (w_events w) s1
      in if \<not> woken then (False, s2)
         else
           (let s3 = s2\<lparr>paused_time := paused_time s2 + (w_wake w - pause_start)\<rparr>;
                s4 = set_start_time (start_time s3 + paused_time s3) s3;
                s5 = update_status_time (pause s4) is_done s4;
                s6 = emit ProgressSetUpdate s5
            in if \<not> pause s6 then (True, emit (PauseRender False) s6)
               else pause_wait ws is_done s6))"

text \<open>
  One iteration of the \<open>while\<close> loop of \<open>run_render\<close>, from the loop-top check to the
  assignment of \<open>is_done\<close>: the loop goes on (\<open>Next\<close>, with the new \<open>bStarted\<close> and
  \<open>is_done\<close>), is left (\<open>Exit\<close>), stays in the pause wait (\<open>Blocked\<close>), or dereferences a
  null pointer (\<open>Fault\<close>).
\<close>

datatype step = Next bool bool Session | Exit Session | Blocked Session | Fault error

definition render_body :: "iter_env \<Rightarrow> bool \<Rightarrow> bool \<Rightarrow> Session \<Rightarrow> step" where
  "render_body e bStarted is_done s =
     (if \<not> is_done then
        (case (if \<not> bStarted \<or> interactive (params s) then update_scene_to_server e s else Inr s) of
           Inl err \<Rightarrow> Fault err
         | Inr s1 \<Rightarrow>
             (let s2 = (if \<not> bStarted
                        then emit (StartRender (width (params s1)) (height (params s1))
                                     (image_type (params s1)) (out_of_core_enabled (params s1))
                                     (out_of_core_mem_limit (params s1))
                                     (out_of_core_gpu_headroom (params s1))) s1
                        else s1);
                  s3 = env_run (before_check e) s2;
                  s4 = check_server_error s3
              in if get_cancel s4 then Exit s4
                 else (case update_render_buffer e s4 of
                         Inl err \<Rightarrow> Fault err
                       | Inr s5 \<Rightarrow>
                           (let s6 = check_server_error s5;
                                s7 = emit ProgressSetUpdate (update_status_time False False s6)
                            in Next True (done_pred s7) s7))))
      else
        (case update_render_buffer e s of
           Inl err \<Rightarrow> Fault err
         | Inr s1 \<Rightarrow>
             (let s2 = update_status_time False False s1
              in Next bStarted (done_pred s2) s2)))"

definition render_iteration :: "iter_env \<Rightarrow> bool \<Rightarrow> bool \<Rightarrow> Session \<Rightarrow> step" where
  "render_iteration e bStarted is_done s0 =
     (let s = env_run (at_top e) s0
      in if get_cancel s then Exit s
         else if \<not> interactive (params s) then
           (if is_done
            then Exit (set_status (pass_name s @ '' finished'') (SubText [])
                         (update_status_time False False s))
            else render_body e bStarted is_done s)
         else if pause s \<or> is_done then
           (let s1 = update_status_time (pause s) is_done s;
                (left, s2) = pause_wait (waits e) is_done s1
            in if \<not> left then Blocked s2
               else if get_cancel s2 then Exit s2
               else render_body e bStarted is_done s2)
         else if get_cancel s then Exit s
         else render_body e bStarted is_done s)"

text \<open>
  The loop runs as long as the environment is described; \<open>Unfinished\<close> is the loop still
  running when the description ends.
\<close>

datatype outcome =
    Finished Session
  | Suspended Session
  | Unfinished bool bool Session
  | Crashed error

fun render_loop :: "iter_env list \<Rightarrow> bool \<Rightarrow> bool \<Rightarrow> Session \<Rightarrow> outcome" where
  "render_loop [] bStarted is_done s = Unfinished bStarted is_done s"
| "render_loop (e # es) bStarted is_done s =
     (case render_iteration e bStarted is_done s of
        Next b d s1 \<Rightarrow> render_loop es b d s1
      | Exit s1 \<Rightarrow> Finished s1
      | Blocked s1 \<Rightarrow> Suspended s1
      | Fault err \<Rightarrow> Crashed err)"

text \<open>\<open>Session::run_render\<close>; \<open>now\<close> is the clock at its start.\<close>

definition run_render :: "real \<Rightarrow> iter_env list \<Rightarrow> Session \<Rightarrow> outcome" where
  "run_render now es s =
     (let s1 = s\<lparr>reset_time := now, start_time := now, paused_time := 0\<rparr>;
          s2 = s1\<lparr>params := (params s1)\<lparr>image_stat := (image_stat (params s1))\<lparr>uiCurSamples := 0\<rparr>\<rparr>\<rparr>;
          s3 = (if interactive (params s2) then set_start_time (start_time s2) s2 else s2)
      in render_loop es False False s3)"

text \<open>\<open>Session::run\<close>.\<close>

definition after_render :: "Session \<Rightarrow> Session" where
  "after_render s =
     (if get_cancel s
      then set_status ''Cancel'' (SubText (cancel_message (progress s))) (emit ServerClear s)
      else emit ProgressSetUpdate s)"

definition run :: "real \<Rightarrow> iter_env list \<Rightarrow> Session \<Rightarrow> outcome" where
  "run now es s0 =
     (let s = set_status ''Waiting for render to start'' (SubText []) s0
      in if \<not> get_cancel s
         then (case run_render now es (emit ProgressResetCurSamples s) of
                 Finished s1 \<Rightarrow> Finished (after_render s1)
               | other \<Rightarrow> other)
         else Finished (after_render s))"

subsection \<open>Notions used in the statements\<close>

text \<open>The calls of one kind among the recorded calls.\<close>

fun is_PauseRender :: "call \<Rightarrow> bool" where
  "is_PauseRender (PauseRender b) = True"
| "is_PauseRender c = False"

fun is_StartRender :: "call \<Rightarrow> bool" where
  "is_StartRender (StartRender w h ty ooc mlim hroom) = True"
| "is_StartRender c = False"

fun is_Download :: "call \<Rightarrow> bool" where
  "is_Download (DownloadImageBuffer ty passId) = True"
| "is_Download c = False"

fun is_ScenePush :: "call \<Rightarrow> bool" where
  "is_ScenePush (SceneServerUpdate i f n) = True"
| "is_ScenePush c = False"

text \<open>The engine client's error message after a list of environment events.\<close>

fun pending_error :: "env_event list \<Rightarrow> string \<Rightarrow> string" where
  "pending_error [] m = m"
| "pending_error (EngineError m' # evs) m = pending_error evs m'"
| "pending_error (ev # evs) m = pending_error evs m"

text \<open>Whether a list of events holds a cancellation request.\<close>

fun has_cancel :: "env_event list \<Rightarrow> bool" where
  "has_cancel [] = False"
| "has_cancel (CtlCancel m # evs) = True"
| "has_cancel (ev # evs) = has_cancel evs"

text \<open>
  The engine client's message when line 189 reads it, for a buffer refresh that was
  entered without cancellation and without a pending message: what the download calls,
  the events before line 499 and the host callback left, along the path the refresh takes.
\<close>

definition refresh_error :: "iter_env \<Rightarrow> Session \<Rightarrow> string" where
  "refresh_error e s =
     (if interactive (params s) then
        (let m1 = pending_error (snd (download1 e)) []
         in if \<not> fst (download1 e) \<and> b_session s \<noteq> None then
              (if has_cancel (snd (download1 e)) then m1
               else pending_error (before_notify e) (pending_error (snd (download2 e)) m1))
            else pending_error (before_notify e) m1)
      else
        (let m = pending_error (before_notify e) []
         in if has_cancel (before_notify e) \<or> b_session s = None then m
            else pending_error (host_update e) m))"

text \<open>
  The controller's side of the pause protocol, read off the events alone: the pause flag
  after a list of events, starting from the flag \<open>p\<close>; whether one of the \<open>set_pause\<close>
  calls among them changed the flag, and so broadcast; and, for a list of waits entered
  with the flag \<open>p\<close>, the number of the wait whose wake-up finds the flag clear, if there
  is one (a wait without a broadcast never returns; a wake-up with the flag set leads to
  the next wait).
\<close>

fun flag_after :: "env_event list \<Rightarrow> bool \<Rightarrow> bool" where
  "flag_after [] p = p"
| "flag_after (CtlSetPause b # evs) p = flag_after evs b"
| "flag_after (ev # evs) p = flag_after evs p"

fun broadcasts :: "env_event list \<Rightarrow> bool \<Rightarrow> bool" where
  "broadcasts [] p = False"
| "broadcasts (CtlSetPause b # evs) p = (b \<noteq> p \<or> broadcasts evs b)"
| "broadcasts (ev # evs) p = broadcasts evs p"

fun resume_after :: "wait_env list \<Rightarrow> bool \<Rightarrow> nat option" where
  "resume_after [] p = None"
| "resume_after (w # ws) p =
     (if \<not> broadcasts (w_events w) p then None
      else if \<not> flag_after (w_events w) p then Some 1
      else map_option Suc (resume_after ws True))"

text \<open>
  An iteration in which nobody requests cancellation and the engine reports no error.
\<close>

fun quiet_event :: "env_event \<Rightarrow> bool" where
  "quiet_event (CtlCancel m) = False"
| "quiet_event (EngineError m) = False"
| "quiet_event ev = True"

definition quiet_env :: "iter_env \<Rightarrow> bool" where
  "quiet_env e =
     list_all quiet_event (at_top e @ before_check e @ before_notify e @ host_update e)"

text \<open>
  The render calls an offline session makes in its first iteration before the buffer
  refresh (the scene push, when the scene is exported or reports an update, then the
  render start), and in the buffer refresh of every iteration (the host callback, when a
  host session is attached).
\<close>

definition start_calls :: "iter_env \<Rightarrow> Session \<Rightarrow> call list" where
  "start_calls e s =
     (if export_scene (params s) \<noteq> NONE \<or> need_update e
      then [SceneServerUpdate (interactive (params s)) (frame_idx s) (total_frames s)] else []) @
     [StartRender (width (params s)) (height (params s)) (image_type (params s))
        (out_of_core_enabled (params s)) (out_of_core_mem_limit (params s))
        (out_of_core_gpu_headroom (params s))]"

definition host_calls :: "Session \<Rightarrow> call list" where
  "host_calls s = (case b_session s of None \<Rightarrow> [] | Some h \<Rightarrow> [HostUpdateRenderImg])"

text \<open>The session and the loop variables an outcome carries.\<close>

fun finished_calls :: "outcome \<Rightarrow> call list option" where
  "finished_calls (Finished s) = Some (calls s)"
| "finished_calls out = None"

fun unfinished_calls :: "outcome \<Rightarrow> (bool \<times> bool \<times> call list) option" where
  "unfinished_calls (Unfinished b d s) = Some (b, d, calls s)"
| "unfinished_calls out = None"


text \<open>The calls that start the render, push the scene or pull an image.\<close>

fun is_render_call :: "call \<Rightarrow> bool" where
  "is_render_call (StartRender w h ty ooc mlim hroom) = True"
| "is_render_call (DownloadImageBuffer ty passId) = True"
| "is_render_call (SceneServerUpdate i f n) = True"
| "is_render_call HostUpdateRenderImg = True"
| "is_render_call c = False"

fun outcome_session :: "outcome \<Rightarrow> Session option" where
  "outcome_session (Finished s) = Some s"
| "outcome_session (Suspended s) = Some s"
| "outcome_session (Unfinished b d s) = Some s"
| "outcome_session (Crashed err) = None"

text \<open>Current sample count, target and cancellation flag when the loop has been left.\<close>

fun finished_state :: "outcome \<Rightarrow> (32 word \<times> 32 word \<times> bool) option" where
  "finished_state (Finished s) =
     Some (uiCurSamples (image_stat (params s)), samples (params s), get_cancel s)"
| "finished_state out = None"

subsection \<open>Example sessions\<close>

definition ex_params :: SessionParams where
  "ex_params =
     \<lparr>interactive = False, width = 800, height = 600, samples = 100, hdr_tonemapped = False,
      export_scene = NONE, out_of_core_enabled = False, out_of_core_mem_limit = 0,
      out_of_core_gpu_headroom = 0, deep_image = False, output_path = [],
      image_stat = \<lparr>uiCurSamples = 0, iExpiryTime = 1\<rparr>\<rparr>"

definition ex_client :: OctaneClient where
  "ex_client = \<lparr>connected = True, fail_reason = FAIL_OTHER, sNetAddress = ''127.0.0.1'',
                 error_message = []\<rparr>"

definition ex_progress :: Progress where
  "ex_progress = \<lparr>cancel = False, cancel_message = [], status = [], substatus = SubText [],
                   progress_start_time = 0\<rparr>"

definition ex_buffer :: DisplayBuffer where
  "ex_buffer = \<lparr>buf_params = \<lparr>buf_width = 0, buf_height = 0, buf_passes = []\<rparr>, buf_image = True\<rparr>"

definition ex_scene :: Scene where
  "ex_scene = \<lparr>cam_width = 0, cam_height = 0, bUsePasses = False,
                curPassType = RENDER_PASS_BEAUTY, uiGPUs = 1\<rparr>"

text \<open>An offline session with a scene and a host session attached, and an interactive one.\<close>

definition ex_offline :: Session where
  "ex_offline =
     (Session_new ex_client ex_buffer ex_progress ex_params ''out'')
       \<lparr>scene := Some ex_scene, b_session := Some \<lparr>host_interactive = False\<rparr>,
        pass_name := ''Combined''\<rparr>"

definition ex_interactive :: Session where
  "ex_interactive =
     (Session_new ex_client ex_buffer ex_progress (ex_params\<lparr>interactive := True\<rparr>) [])
       \<lparr>scene := Some ex_scene\<rparr>"

definition ex_size :: BufferParams where
  "ex_size = \<lparr>buf_width = 800, buf_height = 600, buf_passes = []\<rparr>"

text \<open>An iteration in which the environment does nothing and the download has data.\<close>

definition ex_env :: iter_env where
  "ex_env = \<lparr>at_top = [], waits = [], need_update = True, before_check = [],
              download1 = (True, []), download2 = (True, []), before_notify = [],
              host_update = []\<rparr>"

text \<open>Iterations in which the host callback reports 50 and 100 samples.\<close>

definition ex_env_half :: iter_env where
  "ex_env_half = ex_env\<lparr>host_update := [NewImageStat \<lparr>uiCurSamples = 50, iExpiryTime = 1\<rparr>]\<rparr>"

definition ex_env_reach :: iter_env where
  "ex_env_reach = ex_env\<lparr>host_update := [NewImageStat \<lparr>uiCurSamples = 100, iExpiryTime = 1\<rparr>]\<rparr>"

text \<open>An engine error before the check of line 174, and one during the download.\<close>

definition ex_env_error :: iter_env where
  "ex_env_error = ex_env\<lparr>before_check := [EngineError ''out of memory'']\<rparr>"

definition ex_env_download_error :: iter_env where
  "ex_env_download_error = ex_env\<lparr>download1 := (True, [EngineError ''out of memory''])\<rparr>"

definition ex_failed :: Session where
  "ex_failed = ex_interactive\<lparr>server := ex_client\<lparr>error_message := ''out of memory''\<rparr>\<rparr>"

text \<open>
  An interactive session with a host session attached; a cancelled session; a download
  without new data during which cancellation is requested.
\<close>

definition ex_hosted :: Session where
  "ex_hosted = ex_interactive\<lparr>b_session := Some \<lparr>host_interactive = True\<rparr>\<rparr>"

definition ex_cancelled :: Session where
  "ex_cancelled = set_cancel ''Stop'' ex_hosted"

definition ex_env_cancel :: iter_env where
  "ex_env_cancel = ex_env\<lparr>download1 := (False, [CtlCancel ''Stop''])\<rparr>"

text \<open>
  The controller calls \<open>set_pause(true)\<close> before the loop-top check and once more while
  the worker waits; a wait that ends with \<open>set_pause(false)\<close> after three time units.
\<close>

text \<open>
  A cancellation requested before line 499; an engine error raised inside the host
  callback; a download without new data followed by a download that raises an error.
\<close>

definition ex_env_cancel_late :: iter_env where
  "ex_env_cancel_late = ex_env\<lparr>before_notify := [CtlCancel ''Stop'']\<rparr>"

definition ex_env_host_error :: iter_env where
  "ex_env_host_error = ex_env\<lparr>host_update := [EngineError ''out of memory'']\<rparr>"

definition ex_env_retry_error :: iter_env where
  "ex_env_retry_error =
     ex_env\<lparr>download1 := (False, []), download2 := (True, [EngineError ''out of memory''])\<rparr>"

definition ex_env_pause_twice :: iter_env where
  "ex_env_pause_twice =
     ex_env\<lparr>at_top := [CtlSetPause True],
             waits := [\<lparr>w_start = 1, w_events = [CtlSetPause True], w_wake = 2\<rparr>]\<rparr>"

definition ex_wait :: wait_env where
  "ex_wait = \<lparr>w_start = 6, w_events = [CtlSetPause False], w_wake = 9\<rparr>"

text \<open>A wait during which the controller resumes and pauses again, and a redundant call.\<close>

definition ex_wait_flip :: wait_env where
  "ex_wait_flip = \<lparr>w_start = 2, w_events = [CtlSetPause False, CtlSetPause True], w_wake = 4\<rparr>"

definition ex_wait_redundant :: wait_env where
  "ex_wait_redundant = \<lparr>w_start = 2, w_events = [CtlSetPause True], w_wake = 4\<rparr>"

definition ex_paused :: Session where
  "ex_paused = ex_interactive\<lparr>pause := True\<rparr>"

section \<open>Properties\<close>

subsection \<open>Unfolding the model and the examples\<close>

lemmas ex_defs = ex_offline_def ex_interactive_def ex_params_def ex_client_def ex_progress_def
  ex_buffer_def ex_scene_def ex_env_def ex_env_half_def ex_env_reach_def ex_env_error_def
  ex_env_download_error_def ex_failed_def ex_hosted_def ex_cancelled_def ex_env_cancel_def
  ex_env_pause_twice_def ex_wait_def ex_paused_def Session_new_def ex_env_cancel_late_def
  ex_env_host_error_def ex_env_retry_error_def ex_wait_flip_def ex_wait_redundant_def

lemmas model_defs = run_render_def render_iteration_def render_body_def update_render_buffer_def
  update_img_sample_def update_scene_to_server_def update_status_time_def check_server_error_def
  done_pred_def image_type_def pass_id_def downloadImageBuffer_def env_run_def
  emit_def get_cancel_def set_cancel_def set_status_def set_start_time_def
  getServerErrorMessage_def clearServerErrorMessage_def set_pause_def set_samples_def

subsection \<open>Draw, reset and update\<close>

lemma ex_interactive_display: "display ex_interactive = Some ex_buffer"
  by (simp add: ex_interactive_def Session_new_def ex_params_def)

lemma ex_interactive_scene: "scene ex_interactive = Some ex_scene"
  by (simp add: ex_interactive_def)

text \<open>
  C3. For a session with a display buffer, \<open>draw\<close> with requested parameters that differ
  from the buffer's parameters returns "not ready" (false), whatever the buffer holds;
  with equal parameters it returns what the buffer's own draw step returns; in both cases
  the session is left exactly as it was.
\<close>

theorem draw_not_ready_on_mismatch:
  assumes "display s = Some d"
  shows "(p \<noteq> buf_params d \<longrightarrow> draw p s = Inr (False, s)) \<and>
         (p = buf_params d \<longrightarrow> draw p s = Inr (DisplayBuffer_draw d, s))"
  using assms by (simp add: draw_def modified_def)

theorem draw_not_ready_on_mismatch_witness:
  "display ex_interactive = Some ex_buffer \<and> ex_size \<noteq> buf_params ex_buffer \<and>
   draw ex_size ex_interactive = Inr (False, ex_interactive) \<and>
   draw (buf_params ex_buffer) ex_interactive = Inr (True, ex_interactive)"
proof -
  have ne: "ex_size \<noteq> buf_params ex_buffer"
    by (simp add: ex_size_def ex_buffer_def)
  have dr: "DisplayBuffer_draw ex_buffer = True"
    by (simp add: DisplayBuffer_draw_def ex_buffer_def)
  from draw_not_ready_on_mismatch [OF ex_interactive_display, of ex_size]
       draw_not_ready_on_mismatch [OF ex_interactive_display, of "buf_params ex_buffer"]
       ne dr ex_interactive_display
  show ?thesis by simp
qed

text \<open>
  C6. For a session with a display buffer: when \<open>reset\<close> with new parameters has
  completed, the buffer has these parameters, the comparison of \<open>draw\<close> with the same
  parameters reports no mismatch, and \<open>draw\<close> returns what the buffer's draw step returns.
\<close>

theorem reset_then_draw:
  assumes "display s = Some d" and "reset t1 t2 p h s = Inr s'"
  shows "\<exists>d'. display s' = Some d' \<and> buf_params d' = p \<and> \<not> modified p (buf_params d') \<and>
              draw p s' = Inr (DisplayBuffer_draw d', s')"
  using assms
  by (auto simp: reset_def reset_parameters_def draw_def modified_def DisplayBuffer_reset_def
        emit_def set_start_time_def Let_def split: option.splits if_splits)

theorem reset_then_draw_witness:
  "display ex_interactive = Some ex_buffer \<and>
   reset 1 2 ex_size 0 ex_interactive = Inr (projr (reset 1 2 ex_size 0 ex_interactive)) \<and>
   map_option buf_params (display (projr (reset 1 2 ex_size 0 ex_interactive))) = Some ex_size \<and>
   draw ex_size (projr (reset 1 2 ex_size 0 ex_interactive)) =
     Inr (False, projr (reset 1 2 ex_size 0 ex_interactive))"
proof -
  have r: "reset 1 2 ex_size 0 ex_interactive = Inr (projr (reset 1 2 ex_size 0 ex_interactive))"
    by (simp add: reset_def Let_def reset_parameters_def ex_interactive_scene set_start_time_def
          split: option.splits)
  from reset_then_draw [OF ex_interactive_display r]
  obtain d' where d': "display (projr (reset 1 2 ex_size 0 ex_interactive)) = Some d'"
      "buf_params d' = ex_size"
      "draw ex_size (projr (reset 1 2 ex_size 0 ex_interactive)) =
         Inr (DisplayBuffer_draw d', projr (reset 1 2 ex_size 0 ex_interactive))"
    by blast
  have "display (projr (reset 1 2 ex_size 0 ex_interactive)) =
          Some (DisplayBuffer_reset ex_size ex_buffer)"
    by (simp add: reset_def Let_def reset_parameters_def ex_interactive_scene
          ex_interactive_display set_start_time_def emit_def modified_def ex_size_def ex_buffer_def)
  with d'(1) have "d' = DisplayBuffer_reset ex_size ex_buffer"
    by simp
  then have "DisplayBuffer_draw d' = False"
    by (simp add: DisplayBuffer_draw_def DisplayBuffer_reset_def)
  with d' r ex_interactive_display show ?thesis by simp
qed

text \<open>
  C7. For a session with a scene, \<open>reset\<close> leaves the session exactly as \<open>update\<close> with the
  same parameters and clock readings does, except for the recorded calls: \<open>reset\<close> calls the
  engine client's reset (with the scene-export mode, the GPU mask, the sampling hint and
  the deep-image flag) before it broadcasts, \<open>update\<close> only broadcasts. Both mark the
  display outdated, set the reset time, set the start time to the clock and the paused
  time to zero, and reset the display buffer if its parameters changed.
\<close>

theorem update_is_reset_without_engine_reset:
  assumes "scene s = Some sc"
  shows "reset t1 t2 p h s =
           Inr ((update t1 t2 p s)\<lparr>calls := calls s @
                  [ServerReset (export_scene (params s)) (uiGPUs sc) h (deep_image (params s)),
                   NotifyAll]\<rparr>) \<and>
         calls (update t1 t2 p s) = calls s @ [NotifyAll] \<and>
         display_outdated (update t1 t2 p s) \<and>
         reset_time (update t1 t2 p s) = t1 \<and>
         start_time (update t1 t2 p s) = t2 \<and>
         paused_time (update t1 t2 p s) = 0 \<and>
         display (update t1 t2 p s) =
           (case display s of
              None \<Rightarrow> None
            | Some d \<Rightarrow> Some (if modified p (buf_params d) then DisplayBuffer_reset p d else d))"
  using assms
  by (auto simp: reset_def update_def reset_parameters_def emit_def set_start_time_def Let_def
        split: option.splits)

theorem update_is_reset_without_engine_reset_witness:
  "scene ex_interactive = Some ex_scene \<and>
   reset 1 2 ex_size 0 ex_interactive =
     Inr ((update 1 2 ex_size ex_interactive)\<lparr>calls :=
            [SetExportType NONE, SetOutputPath [], ServerReset NONE 1 0 False, NotifyAll]\<rparr>) \<and>
   calls (update 1 2 ex_size ex_interactive) = [SetExportType NONE, SetOutputPath [], NotifyAll]"
  using update_is_reset_without_engine_reset [OF ex_interactive_scene, of 1 2 ex_size 0]
  by (simp add: ex_interactive_def Session_new_def ex_params_def ex_scene_def)

text \<open>
  C9. The constructor gives the session a display buffer exactly when the session is
  interactive, and \<open>draw\<close> dereferences the buffer without a check: on a freshly
  constructed session \<open>draw\<close> is a null dereference exactly when the session is not
  interactive, and returns a result exactly when it is.
\<close>

theorem draw_needs_interactive:
  "(draw p (Session_new srv0 d0 prog0 prm path) = Inl NullDisplay) = (\<not> interactive prm) \<and>
   (draw p (Session_new srv0 d0 prog0 prm path) =
      Inr (if modified p (buf_params d0) then False else DisplayBuffer_draw d0,
           Session_new srv0 d0 prog0 prm path)) = interactive prm"
  by (simp add: draw_def Session_new_def)

theorem draw_needs_interactive_witness:
  "draw ex_size (Session_new ex_client ex_buffer ex_progress ex_params ''out'') = Inl NullDisplay \<and>
   draw ex_size (Session_new ex_client ex_buffer ex_progress (ex_params\<lparr>interactive := True\<rparr>) ''out'') =
     Inr (False, Session_new ex_client ex_buffer ex_progress (ex_params\<lparr>interactive := True\<rparr>) ''out'')"
  using draw_needs_interactive [of ex_size ex_client ex_buffer ex_progress ex_params "''out''"]
        draw_needs_interactive [of ex_size ex_client ex_buffer ex_progress
                                   "ex_params\<lparr>interactive := True\<rparr>" "''out''"]
  by (simp add: ex_params_def ex_size_def ex_buffer_def modified_def)

subsection \<open>The environment and the pieces of the loop\<close>

lemmas prim_defs = emit_def get_cancel_def set_cancel_def set_status_def set_start_time_def
  getServerErrorMessage_def clearServerErrorMessage_def

lemma update_status_time_fields [simp]:
  "params (update_status_time p d s) = params s"
  "server (update_status_time p d s) = server s"
  "display (update_status_time p d s) = display s"
  "scene (update_status_time p d s) = scene s"
  "b_session (update_status_time p d s) = b_session s"
  "start_time (update_status_time p d s) = start_time s"
  "reset_time (update_status_time p d s) = reset_time s"
  "paused_time (update_status_time p d s) = paused_time s"
  "pause (update_status_time p d s) = pause s"
  "pass_name (update_status_time p d s) = pass_name s"
  "frame_idx (update_status_time p d s) = frame_idx s"
  "total_frames (update_status_time p d s) = total_frames s"
  "cancel (progress (update_status_time p d s)) = cancel (progress s)"
  "cancel_message (progress (update_status_time p d s)) = cancel_message (progress s)"
  "progress_start_time (progress (update_status_time p d s)) = progress_start_time (progress s)"
  "calls (update_status_time p d s) = calls s @ [CheckServerConnection, ProgressRefreshCurInfo]"
  by (simp_all add: update_status_time_def prim_defs Let_def split: prod.splits)

lemma set_pause_eq:
  "set_pause b s = (if b \<noteq> pause s then (True, emit NotifyAll (s\<lparr>pause := b\<rparr>)) else (False, s))"
  by (auto simp add: set_pause_def)

lemma env_step_fields [simp]:
  "display (snd (env_step ev s)) = display s"
  "scene (snd (env_step ev s)) = scene s"
  "b_session (snd (env_step ev s)) = b_session s"
  "start_time (snd (env_step ev s)) = start_time s"
  "paused_time (snd (env_step ev s)) = paused_time s"
  "pass_name (snd (env_step ev s)) = pass_name s"
  "interactive (params (snd (env_step ev s))) = interactive (params s)"
  "frame_idx (snd (env_step ev s)) = frame_idx s"
  "total_frames (snd (env_step ev s)) = total_frames s"
  "width (params (snd (env_step ev s))) = width (params s)"
  "height (params (snd (env_step ev s))) = height (params s)"
  "hdr_tonemapped (params (snd (env_step ev s))) = hdr_tonemapped (params s)"
  "export_scene (params (snd (env_step ev s))) = export_scene (params s)"
  "out_of_core_enabled (params (snd (env_step ev s))) = out_of_core_enabled (params s)"
  "out_of_core_mem_limit (params (snd (env_step ev s))) = out_of_core_mem_limit (params s)"
  "out_of_core_gpu_headroom (params (snd (env_step ev s))) = out_of_core_gpu_headroom (params s)"
  "\<not> P NotifyAll \<Longrightarrow> filter P (calls (snd (env_step ev s))) = filter P (calls s)"
  "error_message (server (snd (env_step ev s))) = pending_error [ev] (error_message (server s))"
  by (cases ev; simp add: set_samples_def set_pause_eq prim_defs)+

lemma env_step_cancel:
  "cancel (progress (snd (env_step ev s))) = (cancel (progress s) \<or> (\<exists>m. ev = CtlCancel m))"
  by (cases ev; simp add: set_samples_def set_pause_eq prim_defs)

lemma env_run_Nil [simp]: "env_run [] s = s"
  by (simp add: env_run_def)

lemma env_run_Cons [simp]: "env_run (ev # evs) s = env_run evs (snd (env_step ev s))"
  by (simp add: env_run_def split: prod.splits)

lemma env_apply_snd: "env_apply evs s = (w, s') \<Longrightarrow> s' = env_run evs s"
  by (simp add: env_run_def)

lemma pending_error_Cons: "pending_error (ev # evs) m = pending_error evs (pending_error [ev] m)"
  by (cases ev) simp_all

lemma env_run_fields [simp]:
  "display (env_run evs s) = display s"
  "scene (env_run evs s) = scene s"
  "b_session (env_run evs s) = b_session s"
  "start_time (env_run evs s) = start_time s"
  "paused_time (env_run evs s) = paused_time s"
  "pass_name (env_run evs s) = pass_name s"
  "interactive (params (env_run evs s)) = interactive (params s)"
  "frame_idx (env_run evs s) = frame_idx s"
  "total_frames (env_run evs s) = total_frames s"
  "width (params (env_run evs s)) = width (params s)"
  "height (params (env_run evs s)) = height (params s)"
  "hdr_tonemapped (params (env_run evs s)) = hdr_tonemapped (params s)"
  "export_scene (params (env_run evs s)) = export_scene (params s)"
  "out_of_core_enabled (params (env_run evs s)) = out_of_core_enabled (params s)"
  "out_of_core_mem_limit (params (env_run evs s)) = out_of_core_mem_limit (params s)"
  "out_of_core_gpu_headroom (params (env_run evs s)) = out_of_core_gpu_headroom (params s)"
  by (induction evs arbitrary: s; simp)+

lemma env_run_filter_calls [simp]:
  "\<not> P NotifyAll \<Longrightarrow> filter P (calls (env_run evs s)) = filter P (calls s)"
  by (induction evs arbitrary: s) simp_all

lemma env_run_error [simp]:
  "error_message (server (env_run evs s)) = pending_error evs (error_message (server s))"
proof (induction evs arbitrary: s)
  case Nil
  show ?case by simp
next
  case (Cons ev evs)
  show ?case
    by (simp only: env_run_Cons Cons.IH env_step_fields pending_error_Cons [of ev evs])
qed

lemma env_run_getServerErrorMessage:
  "getServerErrorMessage (env_run evs s) = pending_error evs (getServerErrorMessage s)"
  by (simp add: getServerErrorMessage_def)

lemma env_run_cancel:
  "get_cancel (env_run evs s) = (get_cancel s \<or> (\<exists>m. CtlCancel m \<in> set evs))"
  by (induction evs arbitrary: s) (auto simp: get_cancel_def env_step_cancel)

lemma has_cancel_iff: "has_cancel evs = (\<exists>m. CtlCancel m \<in> set evs)"
  by (induction evs rule: has_cancel.induct) auto

lemma env_run_has_cancel: "get_cancel (env_run evs s) = (get_cancel s \<or> has_cancel evs)"
  by (simp add: env_run_cancel has_cancel_iff)

lemma quiet_has_cancel: "list_all quiet_event evs \<Longrightarrow> \<not> has_cancel evs"
  by (induction evs rule: has_cancel.induct) simp_all

lemma quiet_pending_error: "list_all quiet_event evs \<Longrightarrow> pending_error evs m = m"
  by (induction evs m rule: pending_error.induct) simp_all

subsection \<open>Cancellation inside the buffer refresh\<close>

lemma update_render_buffer_line494:
  assumes "\<not> get_cancel s" "scene s = Some sc" "interactive (params s)"
      and "\<not> fst (download1 e)" "b_session s \<noteq> None"
      and "CtlCancel m \<in> set (snd (download1 e))"
  shows "update_render_buffer e s =
           Inr (snd (downloadImageBuffer (download1 e) (image_type (params s)) (pass_id sc) s))"
proof -
  have "get_cancel (env_run (snd (download1 e))
          (emit (DownloadImageBuffer (image_type (params s)) (pass_id sc)) s))"
    using assms(6) by (auto simp: env_run_cancel)
  then show ?thesis
    using assms(1-5)
    by (simp add: update_render_buffer_def downloadImageBuffer_def Let_def emit_def
          split: prod.splits)
qed

lemma update_render_buffer_line499:
  assumes "\<not> get_cancel s" "scene s = Some sc" "\<not> interactive (params s)"
  shows "update_render_buffer e s =
           Inr (if has_cancel (before_notify e) then env_run (before_notify e) s
                else update_img_sample e (env_run (before_notify e) s))"
  using assms
  by (simp add: update_render_buffer_def Let_def env_run_has_cancel)

lemma update_img_sample_host_call:
  assumes "b_session s = Some h"
  shows "filter (\<lambda>c. c = HostUpdateRenderImg) (calls (update_img_sample e s)) =
           filter (\<lambda>c. c = HostUpdateRenderImg) (calls s) @ [HostUpdateRenderImg]"
  using assms by (simp add: update_img_sample_def emit_def)

text \<open>
  C10. When cancellation has been requested, \<open>update_render_buffer\<close> returns the session
  as it is: no download call, no host callback, frame buffer and image statistics
  untouched. Cancellation is checked again after the download step and before the host
  callback. At line 494: when it is requested during a download that had no new data, in
  a session with a host attached, the function returns right after that download, without
  the second download. At line 499, in an offline session (the only kind whose host
  callback is notified): when cancellation is requested after the entry check, the
  function returns without notifying the host callback and without a status refresh;
  when it is not, the host callback is notified, exactly once if a host is attached.
\<close>

theorem update_render_buffer_cancelled:
  "(get_cancel s \<longrightarrow> update_render_buffer e s = Inr s) \<and>
   (\<not> get_cancel s \<and> scene s = Some sc \<and> interactive (params s) \<and>
    \<not> fst (download1 e) \<and> b_session s \<noteq> None \<and> CtlCancel m \<in> set (snd (download1 e)) \<longrightarrow>
      update_render_buffer e s =
        Inr (snd (downloadImageBuffer (download1 e) (image_type (params s)) (pass_id sc) s)) \<and>
      filter (\<lambda>c. c \<noteq> NotifyAll)
        (calls (snd (downloadImageBuffer (download1 e) (image_type (params s)) (pass_id sc) s))) =
        filter (\<lambda>c. c \<noteq> NotifyAll) (calls s) @ [DownloadImageBuffer IMAGE_8BIT (pass_id sc)]) \<and>
   (\<not> get_cancel s \<and> scene s = Some sc \<and> \<not> interactive (params s) \<and>
    CtlCancel m \<in> set (before_notify e) \<longrightarrow>
      update_render_buffer e s = Inr (env_run (before_notify e) s) \<and>
      filter (\<lambda>c. c \<noteq> NotifyAll) (calls (env_run (before_notify e) s)) =
        filter (\<lambda>c. c \<noteq> NotifyAll) (calls s)) \<and>
   (\<not> get_cancel s \<and> scene s = Some sc \<and> \<not> interactive (params s) \<and>
    (\<forall>m'. CtlCancel m' \<notin> set (before_notify e)) \<longrightarrow>
      update_render_buffer e s = Inr (update_img_sample e (env_run (before_notify e) s)) \<and>
      (b_session s = Some h \<longrightarrow>
         filter (\<lambda>c. c = HostUpdateRenderImg)
           (calls (update_img_sample e (env_run (before_notify e) s))) =
         filter (\<lambda>c. c = HostUpdateRenderImg) (calls s) @ [HostUpdateRenderImg]))"
proof (intro conjI impI)
  assume "get_cancel s"
  then show "update_render_buffer e s = Inr s"
    by (simp add: update_render_buffer_def)
next
  assume a: "\<not> get_cancel s \<and> scene s = Some sc \<and> interactive (params s) \<and>
    \<not> fst (download1 e) \<and> b_session s \<noteq> None \<and> CtlCancel m \<in> set (snd (download1 e))"
  then show "update_render_buffer e s =
        Inr (snd (downloadImageBuffer (download1 e) (image_type (params s)) (pass_id sc) s))"
    using update_render_buffer_line494 [where s = s and sc = sc and e = e and m = m] by simp
  from a show "filter (\<lambda>c. c \<noteq> NotifyAll)
        (calls (snd (downloadImageBuffer (download1 e) (image_type (params s)) (pass_id sc) s))) =
        filter (\<lambda>c. c \<noteq> NotifyAll) (calls s) @ [DownloadImageBuffer IMAGE_8BIT (pass_id sc)]"
    by (simp add: downloadImageBuffer_def image_type_def emit_def)
next
  assume a: "\<not> get_cancel s \<and> scene s = Some sc \<and> \<not> interactive (params s) \<and>
    CtlCancel m \<in> set (before_notify e)"
  then have "has_cancel (before_notify e)"
    by (auto simp: has_cancel_iff)
  with a show "update_render_buffer e s = Inr (env_run (before_notify e) s)"
    by (simp add: update_render_buffer_line499)
  show "filter (\<lambda>c. c \<noteq> NotifyAll) (calls (env_run (before_notify e) s)) =
        filter (\<lambda>c. c \<noteq> NotifyAll) (calls s)"
    by simp
next
  assume a: "\<not> get_cancel s \<and> scene s = Some sc \<and> \<not> interactive (params s) \<and>
    (\<forall>m'. CtlCancel m' \<notin> set (before_notify e))"
  then have "\<not> has_cancel (before_notify e)"
    by (simp add: has_cancel_iff)
  with a show "update_render_buffer e s = Inr (update_img_sample e (env_run (before_notify e) s))"
    by (simp add: update_render_buffer_line499)
next
  assume "b_session s = Some h"
  then have "b_session (env_run (before_notify e) s) = Some h"
    by simp
  from update_img_sample_host_call [OF this]
  show "filter (\<lambda>c. c = HostUpdateRenderImg)
           (calls (update_img_sample e (env_run (before_notify e) s))) =
         filter (\<lambda>c. c = HostUpdateRenderImg) (calls s) @ [HostUpdateRenderImg]"
    by simp
qed

theorem update_render_buffer_cancelled_witness:
  "get_cancel ex_cancelled \<and> update_render_buffer ex_env ex_cancelled = Inr ex_cancelled \<and>
   \<not> get_cancel ex_hosted \<and> scene ex_hosted = Some ex_scene \<and> interactive (params ex_hosted) \<and>
   \<not> fst (download1 ex_env_cancel) \<and> b_session ex_hosted \<noteq> None \<and>
   CtlCancel ''Stop'' \<in> set (snd (download1 ex_env_cancel)) \<and>
   update_render_buffer ex_env_cancel ex_hosted =
     Inr (set_cancel ''Stop'' (emit (DownloadImageBuffer IMAGE_8BIT RENDER_PASS_BEAUTY) ex_hosted)) \<and>
   \<not> get_cancel ex_offline \<and> scene ex_offline = Some ex_scene \<and>
   \<not> interactive (params ex_offline) \<and>
   CtlCancel ''Stop'' \<in> set (before_notify ex_env_cancel_late) \<and>
   update_render_buffer ex_env_cancel_late ex_offline = Inr (set_cancel ''Stop'' ex_offline) \<and>
   before_notify ex_env = [] \<and>
   update_render_buffer ex_env ex_offline = Inr (update_img_sample ex_env ex_offline) \<and>
   filter (\<lambda>c. c = HostUpdateRenderImg) (calls (update_img_sample ex_env ex_offline)) =
     [HostUpdateRenderImg]"
proof -
  have h: "get_cancel ex_cancelled" "\<not> get_cancel ex_hosted" "scene ex_hosted = Some ex_scene"
      "interactive (params ex_hosted)" "\<not> fst (download1 ex_env_cancel)"
      "b_session ex_hosted \<noteq> None" "CtlCancel ''Stop'' \<in> set (snd (download1 ex_env_cancel))"
    by (simp_all add: ex_defs get_cancel_def set_cancel_def)
  have g: "\<not> get_cancel ex_offline" "scene ex_offline = Some ex_scene"
      "\<not> interactive (params ex_offline)"
      "CtlCancel ''Stop'' \<in> set (before_notify ex_env_cancel_late)"
      "before_notify ex_env = []" "b_session ex_offline = Some \<lparr>host_interactive = False\<rparr>"
    by (simp_all add: ex_defs get_cancel_def)
  have d: "snd (downloadImageBuffer (download1 ex_env_cancel) (image_type (params ex_hosted))
                  (pass_id ex_scene) ex_hosted) =
           set_cancel ''Stop'' (emit (DownloadImageBuffer IMAGE_8BIT RENDER_PASS_BEAUTY) ex_hosted)"
    by (simp add: downloadImageBuffer_def image_type_def pass_id_def ex_defs)
  have l: "env_run (before_notify ex_env_cancel_late) ex_offline = set_cancel ''Stop'' ex_offline"
    by (simp add: ex_env_cancel_late_def ex_env_def)
  have c0: "filter (\<lambda>c. c = HostUpdateRenderImg) (calls ex_offline) = []"
    by (simp add: ex_defs)
  from update_render_buffer_cancelled [where s = ex_cancelled and e = ex_env] h(1)
  have a: "update_render_buffer ex_env ex_cancelled = Inr ex_cancelled"
    by blast
  from update_render_buffer_cancelled [where s = ex_hosted and e = ex_env_cancel
         and sc = ex_scene and m = "''Stop''"] h(2-7)
  have b: "update_render_buffer ex_env_cancel ex_hosted =
          Inr (snd (downloadImageBuffer (download1 ex_env_cancel) (image_type (params ex_hosted))
                      (pass_id ex_scene) ex_hosted))"
    by blast
  from update_render_buffer_cancelled [where s = ex_offline and e = ex_env_cancel_late
         and sc = ex_scene and m = "''Stop''"] g(1-4)
  have c: "update_render_buffer ex_env_cancel_late ex_offline =
             Inr (env_run (before_notify ex_env_cancel_late) ex_offline)"
    by blast
  have nc: "\<forall>m'. CtlCancel m' \<notin> set (before_notify ex_env)"
    by (simp add: g(5))
  from update_render_buffer_cancelled [where s = ex_offline and e = ex_env
         and sc = ex_scene and h = "\<lparr>host_interactive = False\<rparr>"] g(1-3,6) nc
  have e: "update_render_buffer ex_env ex_offline =
             Inr (update_img_sample ex_env (env_run (before_notify ex_env) ex_offline))"
      "filter (\<lambda>c. c = HostUpdateRenderImg)
           (calls (update_img_sample ex_env (env_run (before_notify ex_env) ex_offline))) =
         filter (\<lambda>c. c = HostUpdateRenderImg) (calls ex_offline) @ [HostUpdateRenderImg]"
    by blast+
  from a b c e h g(1-5) d l c0 show ?thesis by simp
qed

subsection \<open>Engine errors\<close>

lemma emit_fields [simp]:
  "params (emit c s) = params s"
  "server (emit c s) = server s"
  "display (emit c s) = display s"
  "scene (emit c s) = scene s"
  "b_session (emit c s) = b_session s"
  "progress (emit c s) = progress s"
  "start_time (emit c s) = start_time s"
  "paused_time (emit c s) = paused_time s"
  "pause (emit c s) = pause s"
  "pass_name (emit c s) = pass_name s"
  "calls (emit c s) = calls s @ [c]"
  "get_cancel (emit c s) = get_cancel s"
  "getServerErrorMessage (emit c s) = getServerErrorMessage s"
  by (simp_all add: prim_defs)

lemma check_server_error_fields [simp]:
  "params (check_server_error s) = params s"
  "display (check_server_error s) = display s"
  "scene (check_server_error s) = scene s"
  "b_session (check_server_error s) = b_session s"
  "pause (check_server_error s) = pause s"
  "pass_name (check_server_error s) = pass_name s"
  "getServerErrorMessage (check_server_error s) = []"
  "get_cancel (check_server_error s) = (get_cancel s \<or> getServerErrorMessage s \<noteq> [])"
  "\<not> P ClearServerErrorMessage \<Longrightarrow> filter P (calls (check_server_error s)) = filter P (calls s)"
  by (simp_all add: check_server_error_def prim_defs)

lemma check_server_error_message:
  "getServerErrorMessage s \<noteq> [] \<Longrightarrow>
   cancel_message (progress (check_server_error s)) =
     ''ERROR! Check console for detailed error messages.''"
  by (simp add: check_server_error_def prim_defs)

lemma check_server_error_none:
  "getServerErrorMessage s = [] \<Longrightarrow> check_server_error s = s"
  by (simp add: check_server_error_def)

lemma update_scene_to_server_ok:
  assumes "scene s = Some sc"
  shows "\<exists>s'. update_scene_to_server e s = Inr s' \<and> params s' = params s \<and>
              server s' = server s \<and> b_session s' = b_session s \<and> display s' = display s \<and>
              pause s' = pause s \<and> pass_name s' = pass_name s \<and>
              get_cancel s' = get_cancel s \<and>
              scene s' = Some (sc\<lparr>cam_width := width (params s), cam_height := height (params s)\<rparr>) \<and>
              filter is_StartRender (calls s') = filter is_StartRender (calls s) \<and>
              filter is_Download (calls s') = filter is_Download (calls s) \<and>
              filter is_PauseRender (calls s') = filter is_PauseRender (calls s) \<and>
              length (filter is_ScenePush (calls s')) \<le> Suc (length (filter is_ScenePush (calls s)))"
  using assms by (auto simp: update_scene_to_server_def prim_defs Let_def)

lemma update_status_time_derived [simp]:
  "get_cancel (update_status_time p d s) = get_cancel s"
  "getServerErrorMessage (update_status_time p d s) = getServerErrorMessage s"
  "done_pred (update_status_time p d s) = done_pred s"
  by (simp_all add: get_cancel_def getServerErrorMessage_def done_pred_def)

lemma render_body_error_before_check:
  assumes "scene s = Some sc"
      and "pending_error (before_check e) (error_message (server s)) \<noteq> []"
  shows "\<exists>s'. render_body e b False s = Exit s' \<and> get_cancel s' \<and>
              cancel_message (progress s') = ''ERROR! Check console for detailed error messages.'' \<and>
              getServerErrorMessage s' = []"
proof -
  obtain s1 where s1: "update_scene_to_server e s = Inr s1" "server s1 = server s"
    using update_scene_to_server_ok [OF assms(1), of e] by auto
  have e1: "getServerErrorMessage s1 = getServerErrorMessage s"
    using s1(2) by (simp add: getServerErrorMessage_def)
  have e2: "pending_error (before_check e) (getServerErrorMessage s) \<noteq> []"
    using assms(2) by (simp add: getServerErrorMessage_def)
  show ?thesis
    using e1 e2 s1(1)
    by (cases b; cases "interactive (params s)";
        simp add: render_body_def Let_def check_server_error_message
          env_run_getServerErrorMessage)
qed

lemma update_img_sample_error:
  "getServerErrorMessage (update_img_sample e s) =
     (case b_session s of
        None \<Rightarrow> getServerErrorMessage s
      | Some h \<Rightarrow> pending_error (host_update e) (getServerErrorMessage s))"
  by (simp add: update_img_sample_def env_run_getServerErrorMessage split: option.splits)

lemma update_render_buffer_error:
  assumes "scene s = Some sc" "\<not> get_cancel s" "getServerErrorMessage s = []"
  shows "\<exists>s'. update_render_buffer e s = Inr s' \<and> getServerErrorMessage s' = refresh_error e s"
proof (cases "interactive (params s)")
  case False
  with assms show ?thesis
    by (auto simp: update_render_buffer_line499 refresh_error_def Let_def
          update_img_sample_error env_run_getServerErrorMessage split: option.splits)
next
  case True
  define s1 where "s1 = env_run (snd (download1 e))
                          (emit (DownloadImageBuffer (image_type (params s)) (pass_id sc)) s)"
  have s1: "getServerErrorMessage s1 = pending_error (snd (download1 e)) []"
      "get_cancel s1 = has_cancel (snd (download1 e))" "b_session s1 = b_session s"
      "interactive (params s1)"
    using assms True by (simp_all add: s1_def env_run_getServerErrorMessage env_run_has_cancel)
  define s2 where "s2 = env_run (snd (download2 e))
                          (emit (DownloadImageBuffer (image_type (params s1)) (pass_id sc)) s1)"
  have s2: "getServerErrorMessage s2 =
              pending_error (snd (download2 e)) (pending_error (snd (download1 e)) [])"
      "interactive (params s2)"
    using s1 by (simp_all add: s2_def env_run_getServerErrorMessage)
  have "update_render_buffer e s =
          (if \<not> fst (download1 e) \<and> b_session s \<noteq> None
           then (if has_cancel (snd (download1 e)) then Inr s1
                 else Inr (env_run (before_notify e) s2))
           else Inr (env_run (before_notify e) s1))"
    using assms True s1(2-4) s2(2)
    by (simp add: update_render_buffer_def downloadImageBuffer_def Let_def
          s1_def [symmetric] s2_def [symmetric] split: prod.splits)
  then show ?thesis
    using True s1(1) s2(1)
    by (simp add: refresh_error_def Let_def env_run_getServerErrorMessage)
qed

lemma refresh_error_cong:
  "interactive (params s') = interactive (params s) \<Longrightarrow> b_session s' = b_session s \<Longrightarrow>
   refresh_error e s' = refresh_error e s"
  by (simp add: refresh_error_def)

lemma render_body_error_in_refresh:
  assumes "scene s = Some sc" "\<not> get_cancel s" "\<not> has_cancel (before_check e)"
      and "pending_error (before_check e) (error_message (server s)) = []"
      and "refresh_error e s \<noteq> []"
  shows "\<exists>s'. render_body e b False s = Next True (done_pred s') s' \<and> get_cancel s' \<and>
              cancel_message (progress s') = ''ERROR! Check console for detailed error messages.'' \<and>
              getServerErrorMessage s' = []"
proof -
  obtain s1 where s1: "update_scene_to_server e s = Inr s1"
      "server s1 = server s" "params s1 = params s" "b_session s1 = b_session s"
      "get_cancel s1 = get_cancel s"
      "scene s1 = Some (sc\<lparr>cam_width := width (params s), cam_height := height (params s)\<rparr>)"
    using update_scene_to_server_ok [OF assms(1), of e] by auto
  define s0 where "s0 = (if \<not> b \<or> interactive (params s) then s1 else s)"
  have r0: "(if \<not> b \<or> interactive (params s) then update_scene_to_server e s else Inr s) = Inr s0"
    using s1(1) by (simp add: s0_def)
  have s0: "server s0 = server s" "params s0 = params s" "b_session s0 = b_session s"
      "\<not> get_cancel s0" "scene s0 \<noteq> None"
    using s1 assms(1,2) by (simp_all add: s0_def)
  define s2 where "s2 = (if \<not> b
                        then emit (StartRender (width (params s0)) (height (params s0))
                                     (image_type (params s0)) (out_of_core_enabled (params s0))
                                     (out_of_core_mem_limit (params s0))
                                     (out_of_core_gpu_headroom (params s0))) s0
                        else s0)"
  define s3 where "s3 = env_run (before_check e) s2"
  have s2: "server s2 = server s" "params s2 = params s" "b_session s2 = b_session s"
      "\<not> get_cancel s2" "scene s2 \<noteq> None"
    using s0 by (simp_all add: s2_def)
  have s3: "getServerErrorMessage s3 = []" "\<not> get_cancel s3"
      "interactive (params s3) = interactive (params s)"
      "b_session s3 = b_session s" "scene s3 \<noteq> None"
    using s2 assms(3,4)
    by (simp_all add: s3_def getServerErrorMessage_def env_run_has_cancel)
  from s3(5) obtain sc3 where sc3: "scene s3 = Some sc3" by auto
  from update_render_buffer_error [OF sc3 s3(2) s3(1), of e]
  obtain s5 where s5: "update_render_buffer e s3 = Inr s5"
      "getServerErrorMessage s5 = refresh_error e s3"
    by auto
  have err5: "getServerErrorMessage s5 \<noteq> []"
    using assms(5) s5(2) refresh_error_cong [OF s3(3,4), of e] by simp
  define s7 where
    "s7 = emit ProgressSetUpdate (update_status_time False False (check_server_error s5))"
  have "render_body e b False s = Next True (done_pred s7) s7"
    using r0 s3(1,2) s5(1)
    by (simp add: render_body_def Let_def s2_def [symmetric] s3_def [symmetric]
          check_server_error_none s7_def
        del: if_not_P if_P)
  moreover have "get_cancel s7"
      "cancel_message (progress s7) = ''ERROR! Check console for detailed error messages.''"
      "getServerErrorMessage s7 = []"
    using err5 by (simp_all add: s7_def check_server_error_message)
  ultimately show ?thesis by blast
qed

lemma render_body_Next_no_error:
  "render_body e b False s = Next b' d' s' \<Longrightarrow> getServerErrorMessage s' = []"
  by (auto simp: render_body_def Let_def split: if_splits sum.splits)

lemma render_iteration_cancelled:
  assumes "get_cancel s"
  shows "render_iteration e b d s = Exit (env_run (at_top e) s)"
  using assms by (simp add: render_iteration_def Let_def env_run_cancel)

text \<open>
  C8. At both places where the render loop reads the engine client's error message
  (lines 174 and 189), a non-empty message makes it request cancellation with the message
  "ERROR! Check console for detailed error messages." and clear the engine client's
  message. A message pending at the first check makes the iteration leave the loop there,
  cancelled. For every kind of session (offline or interactive, with or without a host),
  a message that the buffer refresh leaves behind (raised by a download, by the host
  callback or in between) is turned into the cancellation at the second check. No
  iteration that goes on to the next one leaves an engine message pending. A cancelled
  session leaves the loop at the next loop-top check, as a finished loop and not as a
  fault, and \<open>run\<close> then takes its cancellation branch (engine client cleared, status
  "Cancel" with the message).
\<close>

theorem engine_error_cancels:
  "(getServerErrorMessage s \<noteq> [] \<longrightarrow>
      check_server_error s =
        clearServerErrorMessage (set_cancel ''ERROR! Check console for detailed error messages.'' s) \<and>
      get_cancel (check_server_error s) \<and>
      cancel_message (progress (check_server_error s)) =
        ''ERROR! Check console for detailed error messages.'' \<and>
      getServerErrorMessage (check_server_error s) = []) \<and>
   (scene s = Some sc \<and> pending_error (before_check e) (error_message (server s)) \<noteq> [] \<longrightarrow>
      (\<exists>s'. render_body e b False s = Exit s' \<and> get_cancel s' \<and>
            cancel_message (progress s') = ''ERROR! Check console for detailed error messages.'' \<and>
            getServerErrorMessage s' = [])) \<and>
   (scene s = Some sc \<and> \<not> get_cancel s \<and> \<not> has_cancel (before_check e) \<and>
    pending_error (before_check e) (error_message (server s)) = [] \<and>
    refresh_error e s \<noteq> [] \<longrightarrow>
      (\<exists>s'. render_body e b False s = Next True (done_pred s') s' \<and> get_cancel s' \<and>
            cancel_message (progress s') = ''ERROR! Check console for detailed error messages.'' \<and>
            getServerErrorMessage s' = [])) \<and>
   (render_body e b False s = Next b1 d1 s1 \<longrightarrow> getServerErrorMessage s1 = []) \<and>
   (get_cancel s \<longrightarrow>
      render_loop (e # es) b d s = Finished (env_run (at_top e) s) \<and>
      get_cancel (env_run (at_top e) s) \<and>
      after_render s =
        set_status ''Cancel'' (SubText (cancel_message (progress s))) (emit ServerClear s))"
proof (intro conjI impI)
  assume "getServerErrorMessage s \<noteq> []"
  then show "check_server_error s =
        clearServerErrorMessage (set_cancel ''ERROR! Check console for detailed error messages.'' s)"
    by (simp add: check_server_error_def)
next
  assume "getServerErrorMessage s \<noteq> []"
  then show "get_cancel (check_server_error s)" by simp
next
  assume "getServerErrorMessage s \<noteq> []"
  then show "cancel_message (progress (check_server_error s)) =
        ''ERROR! Check console for detailed error messages.''"
    by (rule check_server_error_message)
next
  show "getServerErrorMessage (check_server_error s) = []" by simp
next
  assume "scene s = Some sc \<and> pending_error (before_check e) (error_message (server s)) \<noteq> []"
  then show "\<exists>s'. render_body e b False s = Exit s' \<and> get_cancel s' \<and>
            cancel_message (progress s') = ''ERROR! Check console for detailed error messages.'' \<and>
            getServerErrorMessage s' = []"
    using render_body_error_before_check by blast
next
  assume "scene s = Some sc \<and> \<not> get_cancel s \<and> \<not> has_cancel (before_check e) \<and>
    pending_error (before_check e) (error_message (server s)) = [] \<and>
    refresh_error e s \<noteq> []"
  then show "\<exists>s'. render_body e b False s = Next True (done_pred s') s' \<and> get_cancel s' \<and>
            cancel_message (progress s') = ''ERROR! Check console for detailed error messages.'' \<and>
            getServerErrorMessage s' = []"
    using render_body_error_in_refresh by blast
next
  assume "render_body e b False s = Next b1 d1 s1"
  then show "getServerErrorMessage s1 = []"
    by (rule render_body_Next_no_error)
next
  assume "get_cancel s"
  then show "render_loop (e # es) b d s = Finished (env_run (at_top e) s)"
    by (simp add: render_iteration_cancelled)
next
  assume "get_cancel s"
  then show "get_cancel (env_run (at_top e) s)" by (simp add: env_run_cancel)
next
  assume "get_cancel s"
  then show "after_render s =
        set_status ''Cancel'' (SubText (cancel_message (progress s))) (emit ServerClear s)"
    by (simp add: after_render_def)
qed

theorem engine_error_cancels_witness:
  "getServerErrorMessage ex_failed \<noteq> [] \<and>
   get_cancel (check_server_error ex_failed) \<and>
   cancel_message (progress (check_server_error ex_failed)) =
     ''ERROR! Check console for detailed error messages.'' \<and>
   getServerErrorMessage (check_server_error ex_failed) = [] \<and>
   (\<exists>s'. render_body ex_env_error False False ex_interactive = Exit s' \<and> get_cancel s' \<and>
         cancel_message (progress s') = ''ERROR! Check console for detailed error messages.'' \<and>
         getServerErrorMessage s' = []) \<and>
   refresh_error ex_env_download_error ex_interactive = ''out of memory'' \<and>
   (\<exists>s'. render_body ex_env_download_error False False ex_interactive =
           Next True (done_pred s') s' \<and> get_cancel s' \<and>
         cancel_message (progress s') = ''ERROR! Check console for detailed error messages.'' \<and>
         getServerErrorMessage s' = []) \<and>
   refresh_error ex_env_retry_error ex_hosted = ''out of memory'' \<and>
   (\<exists>s'. render_body ex_env_retry_error False False ex_hosted =
           Next True (done_pred s') s' \<and> get_cancel s' \<and>
         cancel_message (progress s') = ''ERROR! Check console for detailed error messages.'' \<and>
         getServerErrorMessage s' = []) \<and>
   refresh_error ex_env_host_error ex_offline = ''out of memory'' \<and>
   (\<exists>s'. render_body ex_env_host_error False False ex_offline =
           Next True (done_pred s') s' \<and> get_cancel s' \<and>
         cancel_message (progress s') = ''ERROR! Check console for detailed error messages.'' \<and>
         getServerErrorMessage s' = []) \<and>
   render_loop [ex_env] True False (check_server_error ex_failed) =
     Finished (check_server_error ex_failed) \<and>
   status (progress (after_render (check_server_error ex_failed))) = ''Cancel'' \<and>
   substatus (progress (after_render (check_server_error ex_failed))) =
     SubText ''ERROR! Check console for detailed error messages.''"
proof -
  have h1: "getServerErrorMessage ex_failed \<noteq> []"
    by (simp add: ex_defs getServerErrorMessage_def)
  have h2: "scene ex_interactive = Some ex_scene \<and>
            pending_error (before_check ex_env_error) (error_message (server ex_interactive)) \<noteq> []"
    by (simp add: ex_defs)
  have r: "refresh_error ex_env_download_error ex_interactive = ''out of memory''"
      "refresh_error ex_env_retry_error ex_hosted = ''out of memory''"
      "refresh_error ex_env_host_error ex_offline = ''out of memory''"
    by (simp_all add: refresh_error_def ex_defs)
  have h3: "scene ex_interactive = Some ex_scene \<and> \<not> get_cancel ex_interactive \<and>
            \<not> has_cancel (before_check ex_env_download_error) \<and>
            pending_error (before_check ex_env_download_error)
              (error_message (server ex_interactive)) = [] \<and>
            refresh_error ex_env_download_error ex_interactive \<noteq> []"
    unfolding r by (simp add: ex_defs get_cancel_def)
  have h5: "scene ex_hosted = Some ex_scene \<and> \<not> get_cancel ex_hosted \<and>
            \<not> has_cancel (before_check ex_env_retry_error) \<and>
            pending_error (before_check ex_env_retry_error)
              (error_message (server ex_hosted)) = [] \<and>
            refresh_error ex_env_retry_error ex_hosted \<noteq> []"
    unfolding r by (simp add: ex_defs get_cancel_def)
  have h6: "scene ex_offline = Some ex_scene \<and> \<not> get_cancel ex_offline \<and>
            \<not> has_cancel (before_check ex_env_host_error) \<and>
            pending_error (before_check ex_env_host_error)
              (error_message (server ex_offline)) = [] \<and>
            refresh_error ex_env_host_error ex_offline \<noteq> []"
    unfolding r by (simp add: ex_defs get_cancel_def)
  have h4: "get_cancel (check_server_error ex_failed)"
    using h1 by simp
  have top: "env_run (at_top ex_env) (check_server_error ex_failed) = check_server_error ex_failed"
    by (simp add: ex_env_def)
  from engine_error_cancels [where s = ex_failed] h1
  have a: "cancel_message (progress (check_server_error ex_failed)) =
             ''ERROR! Check console for detailed error messages.''"
      "getServerErrorMessage (check_server_error ex_failed) = []"
    by blast+
  from engine_error_cancels [where s = ex_interactive and sc = ex_scene and e = ex_env_error
         and b = False] h2
  have b: "\<exists>s'. render_body ex_env_error False False ex_interactive = Exit s' \<and> get_cancel s' \<and>
         cancel_message (progress s') = ''ERROR! Check console for detailed error messages.'' \<and>
         getServerErrorMessage s' = []"
    by blast
  from engine_error_cancels [where s = ex_interactive and sc = ex_scene
         and e = ex_env_download_error and b = False] h3
  have c1: "\<exists>s'. render_body ex_env_download_error False False ex_interactive =
           Next True (done_pred s') s' \<and> get_cancel s' \<and>
         cancel_message (progress s') = ''ERROR! Check console for detailed error messages.'' \<and>
         getServerErrorMessage s' = []"
    by blast
  from engine_error_cancels [where s = ex_hosted and sc = ex_scene
         and e = ex_env_retry_error and b = False] h5
  have c2: "\<exists>s'. render_body ex_env_retry_error False False ex_hosted =
           Next True (done_pred s') s' \<and> get_cancel s' \<and>
         cancel_message (progress s') = ''ERROR! Check console for detailed error messages.'' \<and>
         getServerErrorMessage s' = []"
    by blast
  from engine_error_cancels [where s = ex_offline and sc = ex_scene
         and e = ex_env_host_error and b = False] h6
  have c3: "\<exists>s'. render_body ex_env_host_error False False ex_offline =
           Next True (done_pred s') s' \<and> get_cancel s' \<and>
         cancel_message (progress s') = ''ERROR! Check console for detailed error messages.'' \<and>
         getServerErrorMessage s' = []"
    by blast
  from engine_error_cancels [where s = "check_server_error ex_failed" and e = ex_env
         and es = "[]" and b = True and d = False] h4
  have d: "render_loop [ex_env] True False (check_server_error ex_failed) =
             Finished (env_run (at_top ex_env) (check_server_error ex_failed))"
      "after_render (check_server_error ex_failed) =
         set_status ''Cancel'' (SubText (cancel_message (progress (check_server_error ex_failed))))
           (emit ServerClear (check_server_error ex_failed))"
    by blast+
  have e: "status (progress (after_render (check_server_error ex_failed))) = ''Cancel''"
      "substatus (progress (after_render (check_server_error ex_failed))) =
         SubText ''ERROR! Check console for detailed error messages.''"
    unfolding d(2) using a(1) by (simp_all add: set_status_def emit_def)
  from h1 h4 a b c1 c2 c3 r d(1) e top show ?thesis by simp
qed

subsection \<open>Pause and resume\<close>








lemma env_step_flags:
  "fst (env_step ev s) = broadcasts [ev] (pause s)"
  "pause (snd (env_step ev s)) = flag_after [ev] (pause s)"
  by (cases ev; auto simp: set_pause_eq set_samples_def prim_defs)+

lemma flag_after_Cons: "flag_after (ev # evs) p = flag_after evs (flag_after [ev] p)"
  by (cases ev) simp_all

lemma broadcasts_Cons:
  "broadcasts (ev # evs) p = (broadcasts [ev] p \<or> broadcasts evs (flag_after [ev] p))"
  by (cases ev) simp_all

lemma env_run_pause: "pause (env_run evs s) = flag_after evs (pause s)"
proof (induction evs arbitrary: s)
  case Nil
  show ?case by simp
next
  case (Cons ev evs)
  show ?case
    by (simp only: env_run_Cons Cons.IH env_step_flags flag_after_Cons [of ev evs])
qed

lemma env_apply_flags: "env_apply evs s = (broadcasts evs (pause s), env_run evs s)"
proof (induction evs arbitrary: s)
  case Nil
  show ?case by simp
next
  case (Cons ev evs)
  obtain n s1 where st: "env_step ev s = (n, s1)"
    by (cases "env_step ev s")
  have n: "n = broadcasts [ev] (pause s)" and p1: "pause s1 = flag_after [ev] (pause s)"
    using env_step_flags [of ev s] st by simp_all
  have "env_apply (ev # evs) s = (n \<or> broadcasts evs (pause s1), env_run evs s1)"
    using st Cons.IH [of s1] by simp
  moreover have "env_run (ev # evs) s = env_run evs s1"
    using st by simp
  ultimately show ?case
    using n p1 by (simp only: broadcasts_Cons [of ev evs])
qed

text \<open>
  What one round of the pause loop does, in terms of the state \<open>s6\<close> with which the
  worker looks at the flag after a wake-up.
\<close>

lemma pause_wait_round:
  "\<exists>s2 s6.
     (\<forall>ws. pause_wait (w # ws) d s =
        (if \<not> broadcasts (w_events w) (pause s) then (False, s2)
         else if \<not> flag_after (w_events w) (pause s) then (True, emit (PauseRender False) s6)
         else pause_wait ws d s6)) \<and>
     pause s6 = flag_after (w_events w) (pause s) \<and>
     paused_time s2 = paused_time s \<and>
     paused_time s6 = paused_time s + (w_wake w - w_start w) \<and>
     filter is_PauseRender (calls s6) =
       filter is_PauseRender (calls s) @ (if pause s then [PauseRender True] else []) \<and>
     filter (\<lambda>c. c = PauseRender False) (calls s2) =
       filter (\<lambda>c. c = PauseRender False) (calls s) \<and>
     filter (\<lambda>c. c = PauseRender False) (calls s6) =
       filter (\<lambda>c. c = PauseRender False) (calls s)"
proof -
  define s1 where "s1 = (if pause s then emit (PauseRender True) s else s)"
  define s2 where "s2 = env_run (w_events w) s1"
  define s3 where "s3 = s2\<lparr>paused_time := paused_time s2 + (w_wake w - w_start w)\<rparr>"
  define s4 where "s4 = set_start_time (start_time s3 + paused_time s3) s3"
  define s6 where "s6 = emit ProgressSetUpdate (update_status_time (pause s4) d s4)"
  have p1: "pause s1 = pause s" "paused_time s1 = paused_time s"
      "filter is_PauseRender (calls s1) =
         filter is_PauseRender (calls s) @ (if pause s then [PauseRender True] else [])"
      "filter (\<lambda>c. c = PauseRender False) (calls s1) =
         filter (\<lambda>c. c = PauseRender False) (calls s)"
    by (simp_all add: s1_def)
  have p2: "pause s2 = flag_after (w_events w) (pause s)" "paused_time s2 = paused_time s"
      "filter is_PauseRender (calls s2) =
         filter is_PauseRender (calls s) @ (if pause s then [PauseRender True] else [])"
      "filter (\<lambda>c. c = PauseRender False) (calls s2) =
         filter (\<lambda>c. c = PauseRender False) (calls s)"
    using p1 by (simp_all add: s2_def env_run_pause)
  have p6: "pause s6 = flag_after (w_events w) (pause s)"
      "paused_time s6 = paused_time s + (w_wake w - w_start w)"
      "filter is_PauseRender (calls s6) =
         filter is_PauseRender (calls s) @ (if pause s then [PauseRender True] else [])"
      "filter (\<lambda>c. c = PauseRender False) (calls s6) =
         filter (\<lambda>c. c = PauseRender False) (calls s)"
    using p2 by (simp_all add: s6_def s4_def s3_def set_start_time_def)
  have ea: "env_apply (w_events w) s1 = (broadcasts (w_events w) (pause s), s2)"
    by (simp add: env_apply_flags p1(1) s2_def)
  have step: "\<forall>ws. pause_wait (w # ws) d s =
           (if \<not> broadcasts (w_events w) (pause s) then (False, s2)
            else if \<not> pause s6 then (True, emit (PauseRender False) s6)
            else pause_wait ws d s6)"
    by (simp add: s1_def [symmetric] ea Let_def s3_def s4_def s6_def)
  have pw: "\<forall>ws. pause_wait (w # ws) d s =
           (if \<not> broadcasts (w_events w) (pause s) then (False, s2)
            else if \<not> flag_after (w_events w) (pause s) then (True, emit (PauseRender False) s6)
            else pause_wait ws d s6)"
    using step unfolding p6(1) .
  from pw p6 p2(2,4) show ?thesis by blast
qed

lemma pause_wait_exact:
  "case resume_after ws (pause s) of
     None \<Rightarrow>
       \<not> fst (pause_wait ws d s) \<and>
       filter (\<lambda>c. c = PauseRender False) (calls (snd (pause_wait ws d s))) =
         filter (\<lambda>c. c = PauseRender False) (calls s)
   | Some n \<Rightarrow>
       fst (pause_wait ws d s) \<and> 0 < n \<and> n \<le> length ws \<and>
       \<not> pause (snd (pause_wait ws d s)) \<and>
       paused_time (snd (pause_wait ws d s)) =
         paused_time s + sum_list (map (\<lambda>w. w_wake w - w_start w) (take n ws)) \<and>
       filter is_PauseRender (calls (snd (pause_wait ws d s))) =
         filter is_PauseRender (calls s) @ (if pause s then [PauseRender True] else []) @
         replicate (n - 1) (PauseRender True) @ [PauseRender False]"
proof (induction ws arbitrary: s)
  case Nil
  show ?case by simp
next
  case (Cons w ws)
  from pause_wait_round [of w d s]
  obtain s2 s6 where pw: "pause_wait (w # ws) d s =
        (if \<not> broadcasts (w_events w) (pause s) then (False, s2)
         else if \<not> flag_after (w_events w) (pause s) then (True, emit (PauseRender False) s6)
         else pause_wait ws d s6)"
    and p6: "pause s6 = flag_after (w_events w) (pause s)"
    and t6: "paused_time s6 = paused_time s + (w_wake w - w_start w)"
    and c6: "filter is_PauseRender (calls s6) =
       filter is_PauseRender (calls s) @ (if pause s then [PauseRender True] else [])"
    and n2: "filter (\<lambda>c. c = PauseRender False) (calls s2) =
       filter (\<lambda>c. c = PauseRender False) (calls s)"
    and n6: "filter (\<lambda>c. c = PauseRender False) (calls s6) =
       filter (\<lambda>c. c = PauseRender False) (calls s)"
    by blast
  show ?case
  proof (cases "broadcasts (w_events w) (pause s)")
    case False
    then show ?thesis
      unfolding pw using n2 by simp
  next
    case b: True
    show ?thesis
    proof (cases "flag_after (w_events w) (pause s)")
      case False
      with b p6 t6 c6 show ?thesis
        unfolding pw by simp
    next
      case f: True
      have eq: "pause_wait (w # ws) d s = pause_wait ws d s6"
        unfolding pw using b f by simp
      have p: "pause s6" using p6 f by simp
      have ra: "resume_after (w # ws) (pause s) = map_option Suc (resume_after ws True)"
        using b f by simp
      note ih = Cons.IH [of s6]
      show ?thesis
      proof (cases "resume_after ws True")
        case None
        with ih p n6 show ?thesis
          unfolding eq ra by simp
      next
        case (Some n)
        with ih p have i: "fst (pause_wait ws d s6)" "0 < n" "n \<le> length ws"
            "\<not> pause (snd (pause_wait ws d s6))"
            "paused_time (snd (pause_wait ws d s6)) =
               paused_time s6 + sum_list (map (\<lambda>w. w_wake w - w_start w) (take n ws))"
            "filter is_PauseRender (calls (snd (pause_wait ws d s6))) =
               filter is_PauseRender (calls s6) @ [PauseRender True] @
               replicate (n - 1) (PauseRender True) @ [PauseRender False]"
          by simp_all
        have rp: "PauseRender True # replicate (n - 1) (PauseRender True) =
                    replicate n (PauseRender True)"
          using i(2) by (cases n) simp_all
        have cs: "filter is_PauseRender (calls (snd (pause_wait ws d s6))) =
                    filter is_PauseRender (calls s) @
                    (if pause s then [PauseRender True] else []) @
                    replicate n (PauseRender True) @ [PauseRender False]"
          using i(6) c6 rp by simp
        show ?thesis
          unfolding eq ra using Some i(1-5) cs t6 by simp
      qed
    qed
  qed
qed

lemma pause_wait_mono:
  assumes "\<forall>w\<in>set ws. w_start w \<le> w_wake w"
  shows "paused_time s \<le> paused_time (snd (pause_wait ws d s))"
  using assms
proof (induction ws arbitrary: s)
  case Nil
  show ?case by simp
next
  case (Cons w ws)
  from pause_wait_round [of w d s]
  obtain s2 s6 where pw: "pause_wait (w # ws) d s =
        (if \<not> broadcasts (w_events w) (pause s) then (False, s2)
         else if \<not> flag_after (w_events w) (pause s) then (True, emit (PauseRender False) s6)
         else pause_wait ws d s6)"
    and t2: "paused_time s2 = paused_time s"
    and t6: "paused_time s6 = paused_time s + (w_wake w - w_start w)"
    by blast
  have m: "w_start w \<le> w_wake w" using Cons.prems by simp
  have "paused_time s6 \<le> paused_time (snd (pause_wait ws d s6))"
    using Cons.IH [of s6] Cons.prems by simp
  then show ?case
    unfolding pw using m t2 t6 by simp
qed

text \<open>
  C5. The pause loop resumes exactly when the controller's calls make it: the worker
  leaves the wait at the first wake-up (a broadcast by a \<open>set_pause\<close> call that changed
  the flag) that finds the flag clear, and at no other moment; it never writes the flag
  itself. When it resumes after \<open>n\<close> waits, the pause flag is clear, \<open>paused_time\<close> has
  grown by exactly the time spent in these \<open>n\<close> waits, and \<open>pauseRender(false)\<close> has been
  called exactly once, as the last pause call, after one \<open>pauseRender(true)\<close> per wait
  entered with the flag set. While it does not resume, \<open>pauseRender(false)\<close> is not
  called. With a clock that does not run backwards during a wait, \<open>paused_time\<close> never
  decreases. In particular, a paused worker whose wait sees \<open>set_pause(false)\<close> resumes
  at once, with the duration of that wait added to \<open>paused_time\<close>.
\<close>

theorem pause_wait_resume:
  "fst (pause_wait ws d s) = (resume_after ws (pause s) \<noteq> None) \<and>
   (resume_after ws (pause s) = Some n \<longrightarrow>
      0 < n \<and> n \<le> length ws \<and> \<not> pause (snd (pause_wait ws d s)) \<and>
      paused_time (snd (pause_wait ws d s)) =
        paused_time s + sum_list (map (\<lambda>w. w_wake w - w_start w) (take n ws)) \<and>
      filter is_PauseRender (calls (snd (pause_wait ws d s))) =
        filter is_PauseRender (calls s) @ (if pause s then [PauseRender True] else []) @
        replicate (n - 1) (PauseRender True) @ [PauseRender False]) \<and>
   (resume_after ws (pause s) = None \<longrightarrow>
      filter (\<lambda>c. c = PauseRender False) (calls (snd (pause_wait ws d s))) =
        filter (\<lambda>c. c = PauseRender False) (calls s)) \<and>
   ((\<forall>w\<in>set ws. w_start w \<le> w_wake w) \<longrightarrow>
      paused_time s \<le> paused_time (snd (pause_wait ws d s))) \<and>
   (pause s \<and> w_events w = [CtlSetPause False] \<longrightarrow>
      fst (pause_wait (w # ws) d s) \<and> \<not> pause (snd (pause_wait (w # ws) d s)) \<and>
      paused_time (snd (pause_wait (w # ws) d s)) = paused_time s + (w_wake w - w_start w) \<and>
      filter is_PauseRender (calls (snd (pause_wait (w # ws) d s))) =
        filter is_PauseRender (calls s) @ [PauseRender True, PauseRender False])"
proof -
  note x = pause_wait_exact [where ws = ws and s = s and d = d]
  have c1: "fst (pause_wait ws d s) = (resume_after ws (pause s) \<noteq> None)"
    using x by (cases "resume_after ws (pause s)") simp_all
  have c2: "resume_after ws (pause s) = Some n \<longrightarrow>
      0 < n \<and> n \<le> length ws \<and> \<not> pause (snd (pause_wait ws d s)) \<and>
      paused_time (snd (pause_wait ws d s)) =
        paused_time s + sum_list (map (\<lambda>w. w_wake w - w_start w) (take n ws)) \<and>
      filter is_PauseRender (calls (snd (pause_wait ws d s))) =
        filter is_PauseRender (calls s) @ (if pause s then [PauseRender True] else []) @
        replicate (n - 1) (PauseRender True) @ [PauseRender False]"
    using x by (cases "resume_after ws (pause s)") simp_all
  have c3: "resume_after ws (pause s) = None \<longrightarrow>
      filter (\<lambda>c. c = PauseRender False) (calls (snd (pause_wait ws d s))) =
        filter (\<lambda>c. c = PauseRender False) (calls s)"
    using x by (cases "resume_after ws (pause s)") simp_all
  have c4: "(\<forall>w\<in>set ws. w_start w \<le> w_wake w) \<longrightarrow>
      paused_time s \<le> paused_time (snd (pause_wait ws d s))"
    using pause_wait_mono by blast
  have c5: "pause s \<and> w_events w = [CtlSetPause False] \<longrightarrow>
      fst (pause_wait (w # ws) d s) \<and> \<not> pause (snd (pause_wait (w # ws) d s)) \<and>
      paused_time (snd (pause_wait (w # ws) d s)) = paused_time s + (w_wake w - w_start w) \<and>
      filter is_PauseRender (calls (snd (pause_wait (w # ws) d s))) =
        filter is_PauseRender (calls s) @ [PauseRender True, PauseRender False]"
  proof
    assume a: "pause s \<and> w_events w = [CtlSetPause False]"
    then have "resume_after (w # ws) (pause s) = Some 1"
      by simp
    with pause_wait_exact [where ws = "w # ws" and s = s and d = d] a
    show "fst (pause_wait (w # ws) d s) \<and> \<not> pause (snd (pause_wait (w # ws) d s)) \<and>
      paused_time (snd (pause_wait (w # ws) d s)) = paused_time s + (w_wake w - w_start w) \<and>
      filter is_PauseRender (calls (snd (pause_wait (w # ws) d s))) =
        filter is_PauseRender (calls s) @ [PauseRender True, PauseRender False]"
      by (simp del: pause_wait.simps)
  qed
  from c1 c2 c3 c4 c5 show ?thesis by blast
qed

theorem pause_wait_resume_witness:
  "pause ex_paused \<and> w_events ex_wait = [CtlSetPause False] \<and>
   w_start ex_wait \<le> w_wake ex_wait \<and> w_start ex_wait_flip \<le> w_wake ex_wait_flip \<and>
   resume_after [ex_wait_flip, ex_wait] (pause ex_paused) = Some 2 \<and>
   fst (pause_wait [ex_wait_flip, ex_wait] False ex_paused) \<and>
   \<not> pause (snd (pause_wait [ex_wait_flip, ex_wait] False ex_paused)) \<and>
   paused_time ex_paused = 0 \<and>
   paused_time (snd (pause_wait [ex_wait_flip, ex_wait] False ex_paused)) = 5 \<and>
   filter is_PauseRender (calls (snd (pause_wait [ex_wait_flip, ex_wait] False ex_paused))) =
     [PauseRender True, PauseRender True, PauseRender False] \<and>
   resume_after [ex_wait_flip] (pause ex_paused) = None \<and>
   \<not> fst (pause_wait [ex_wait_flip] False ex_paused) \<and>
   resume_after [ex_wait_redundant, ex_wait] (pause ex_paused) = None \<and>
   \<not> fst (pause_wait [ex_wait_redundant, ex_wait] False ex_paused) \<and>
   filter (\<lambda>c. c = PauseRender False)
     (calls (snd (pause_wait [ex_wait_redundant, ex_wait] False ex_paused))) = [] \<and>
   fst (pause_wait [ex_wait] False ex_paused) \<and>
   paused_time (snd (pause_wait [ex_wait] False ex_paused)) = 3 \<and>
   filter is_PauseRender (calls (snd (pause_wait [ex_wait] False ex_paused))) =
     [PauseRender True, PauseRender False]"
proof -
  have h: "pause ex_paused" "w_events ex_wait = [CtlSetPause False]"
      "paused_time ex_paused = 0" "filter is_PauseRender (calls ex_paused) = []"
      "filter (\<lambda>c. c = PauseRender False) (calls ex_paused) = []"
    by (simp_all add: ex_defs)
  have m: "\<forall>w\<in>set [ex_wait_flip, ex_wait]. w_start w \<le> w_wake w"
    by (simp add: ex_defs)
  have r: "resume_after [ex_wait_flip, ex_wait] (pause ex_paused) = Some 2"
      "resume_after [ex_wait_flip] (pause ex_paused) = None"
      "resume_after [ex_wait_redundant, ex_wait] (pause ex_paused) = None"
    by (simp_all add: ex_defs)
  have d: "sum_list (map (\<lambda>w. w_wake w - w_start w) (take 2 [ex_wait_flip, ex_wait])) = 5"
      "w_wake ex_wait - w_start ex_wait = 3"
    by (simp_all add: ex_defs)
  note a = pause_wait_resume [where ws = "[ex_wait_flip, ex_wait]" and s = ex_paused
             and d = False and n = 2]
  note a' = pause_wait_resume [where ws = "[]" and s = ex_paused and d = False and w = ex_wait]
  from a r(1) have a1: "fst (pause_wait [ex_wait_flip, ex_wait] False ex_paused)"
    by simp
  from a r(1) have a2: "\<not> pause (snd (pause_wait [ex_wait_flip, ex_wait] False ex_paused))"
      "paused_time (snd (pause_wait [ex_wait_flip, ex_wait] False ex_paused)) =
         paused_time ex_paused +
         sum_list (map (\<lambda>w. w_wake w - w_start w) (take 2 [ex_wait_flip, ex_wait]))"
      "filter is_PauseRender (calls (snd (pause_wait [ex_wait_flip, ex_wait] False ex_paused))) =
         filter is_PauseRender (calls ex_paused) @
         (if pause ex_paused then [PauseRender True] else []) @
         replicate (2 - 1) (PauseRender True) @ [PauseRender False]"
    by blast+
  from a' h(1,2) have a3: "fst (pause_wait [ex_wait] False ex_paused)"
      "paused_time (snd (pause_wait [ex_wait] False ex_paused)) =
         paused_time ex_paused + (w_wake ex_wait - w_start ex_wait)"
      "filter is_PauseRender (calls (snd (pause_wait [ex_wait] False ex_paused))) =
         filter is_PauseRender (calls ex_paused) @ [PauseRender True, PauseRender False]"
    by blast+
  note b = pause_wait_resume [where ws = "[ex_wait_flip]" and s = ex_paused and d = False]
  from b r(2) have b1: "\<not> fst (pause_wait [ex_wait_flip] False ex_paused)"
    by simp
  note c = pause_wait_resume [where ws = "[ex_wait_redundant, ex_wait]" and s = ex_paused
             and d = False]
  from c r(3) have c1: "\<not> fst (pause_wait [ex_wait_redundant, ex_wait] False ex_paused)"
    by simp
  from c r(3) have c2: "filter (\<lambda>c. c = PauseRender False)
     (calls (snd (pause_wait [ex_wait_redundant, ex_wait] False ex_paused))) =
     filter (\<lambda>c. c = PauseRender False) (calls ex_paused)"
    by blast
  have w: "w_start ex_wait \<le> w_wake ex_wait" "w_start ex_wait_flip \<le> w_wake ex_wait_flip"
    by (simp_all add: ex_defs)
  from h r d a1 a2 a3 b1 c1 c2 w show ?thesis
    by (simp del: pause_wait.simps)
qed

subsection \<open>The offline loop\<close>

lemma set_status_fields [simp]:
  "params (set_status st sub s) = params s"
  "server (set_status st sub s) = server s"
  "scene (set_status st sub s) = scene s"
  "b_session (set_status st sub s) = b_session s"
  "pass_name (set_status st sub s) = pass_name s"
  "calls (set_status st sub s) = calls s"
  "get_cancel (set_status st sub s) = get_cancel s"
  "status (progress (set_status st sub s)) = st"
  by (simp_all add: prim_defs)

lemma update_img_sample_fields [simp]:
  "interactive (params (update_img_sample e s)) = interactive (params s)"
  "pass_name (update_img_sample e s) = pass_name s"
  "scene (update_img_sample e s) = scene s"
  "b_session (update_img_sample e s) = b_session s"
  "filter is_StartRender (calls (update_img_sample e s)) = filter is_StartRender (calls s)"
  "filter is_Download (calls (update_img_sample e s)) = filter is_Download (calls s)"
  "filter is_ScenePush (calls (update_img_sample e s)) = filter is_ScenePush (calls s)"
  by (simp_all add: update_img_sample_def split: option.splits)

lemma update_render_buffer_offline:
  assumes "\<not> interactive (params s)"
  shows "update_render_buffer e s =
           (if get_cancel s then Inr s
            else case scene s of
                   None \<Rightarrow> Inl NullScene
                 | Some sc \<Rightarrow>
                     Inr (if has_cancel (before_notify e) then env_run (before_notify e) s
                          else update_img_sample e (env_run (before_notify e) s)))"
  using assms
  by (simp add: update_render_buffer_def Let_def env_run_has_cancel split: option.splits)

lemma update_render_buffer_offline_keeps:
  assumes "\<not> interactive (params s)" "update_render_buffer e s = Inr s'"
  shows "\<not> interactive (params s')" "pass_name s' = pass_name s"
        "filter is_StartRender (calls s') = filter is_StartRender (calls s)"
        "filter is_Download (calls s') = filter is_Download (calls s)"
        "filter is_ScenePush (calls s') = filter is_ScenePush (calls s)"
  using assms
  by (auto simp: update_render_buffer_offline split: if_splits option.splits)

lemma update_scene_to_server_keeps:
  assumes "update_scene_to_server e s = Inr s'"
  shows "params s' = params s" "pass_name s' = pass_name s"
        "filter is_StartRender (calls s') = filter is_StartRender (calls s)"
        "filter is_Download (calls s') = filter is_Download (calls s)"
        "length (filter is_ScenePush (calls s')) \<le> Suc (length (filter is_ScenePush (calls s)))"
  using assms
  by (auto simp: update_scene_to_server_def prim_defs Let_def split: option.splits if_splits)

lemma render_body_offline:
  assumes "\<not> interactive (params s)"
  shows "case render_body e b False s of
           Next b' d' s' \<Rightarrow>
             b' \<and> d' = done_pred s' \<and> \<not> interactive (params s') \<and> pass_name s' = pass_name s \<and>
             filter is_Download (calls s') = filter is_Download (calls s) \<and>
             length (filter is_StartRender (calls s')) =
               length (filter is_StartRender (calls s)) + (if b then 0 else 1) \<and>
             length (filter is_ScenePush (calls s')) \<le>
               length (filter is_ScenePush (calls s)) + (if b then 0 else 1)
         | Exit s' \<Rightarrow>
             get_cancel s' \<and> \<not> interactive (params s') \<and>
             filter is_Download (calls s') = filter is_Download (calls s) \<and>
             length (filter is_StartRender (calls s')) =
               length (filter is_StartRender (calls s)) + (if b then 0 else 1) \<and>
             length (filter is_ScenePush (calls s')) \<le>
               length (filter is_ScenePush (calls s)) + (if b then 0 else 1)
         | Blocked s' \<Rightarrow> False
         | Fault err \<Rightarrow> True"
proof (cases b)
  case True
  have i3: "\<not> interactive (params (check_server_error (env_run (before_check e) s)))"
    using assms by simp
  show ?thesis
    using assms True update_render_buffer_offline_keeps [OF i3, where e = e]
    by (auto simp: render_body_def Let_def split: sum.splits)
next
  case False
  show ?thesis
  proof (cases "update_scene_to_server e s")
    case (Inl err)
    then show ?thesis using False by (simp add: render_body_def)
  next
    case (Inr s1)
    note k = update_scene_to_server_keeps [OF Inr]
    define s2 where "s2 = emit (StartRender (width (params s1)) (height (params s1))
                                     (image_type (params s1)) (out_of_core_enabled (params s1))
                                     (out_of_core_mem_limit (params s1))
                                     (out_of_core_gpu_headroom (params s1))) s1"
    define s4 where "s4 = check_server_error (env_run (before_check e) s2)"
    have s4: "\<not> interactive (params s4)" "pass_name s4 = pass_name s"
        "filter is_Download (calls s4) = filter is_Download (calls s)"
        "length (filter is_StartRender (calls s4)) = length (filter is_StartRender (calls s)) + 1"
        "length (filter is_ScenePush (calls s4)) \<le> length (filter is_ScenePush (calls s)) + 1"
      using assms k by (simp_all add: s4_def s2_def)
    have rb: "render_body e b False s =
                (if get_cancel s4 then Exit s4
                 else case update_render_buffer e s4 of
                        Inl err \<Rightarrow> Fault err
                      | Inr s5 \<Rightarrow>
                          (let s6 = check_server_error s5;
                               s7 = emit ProgressSetUpdate (update_status_time False False s6)
                           in Next True (done_pred s7) s7))"
      using False Inr by (simp add: render_body_def s2_def s4_def)
    show ?thesis
      unfolding rb using s4 False update_render_buffer_offline_keeps [OF s4(1), where e = e]
      by (auto simp: Let_def split: sum.splits)
  qed
qed


lemma render_iteration_offline:
  assumes "\<not> interactive (params s)" "d \<longrightarrow> b"
  shows "case render_iteration e b d s of
           Next b' d' s' \<Rightarrow>
             \<not> d \<and> b' \<and> d' = done_pred s' \<and> \<not> interactive (params s') \<and> pass_name s' = pass_name s \<and>
             filter is_Download (calls s') = filter is_Download (calls s) \<and>
             length (filter is_StartRender (calls s')) =
               length (filter is_StartRender (calls s)) + (if b then 0 else 1) \<and>
             length (filter is_ScenePush (calls s')) \<le>
               length (filter is_ScenePush (calls s)) + (if b then 0 else 1)
         | Exit s' \<Rightarrow>
             \<not> interactive (params s') \<and>
             filter is_Download (calls s') = filter is_Download (calls s) \<and>
             length (filter is_StartRender (calls s')) \<le>
               length (filter is_StartRender (calls s)) + (if b then 0 else 1) \<and>
             length (filter is_ScenePush (calls s')) \<le>
               length (filter is_ScenePush (calls s)) + (if b then 0 else 1) \<and>
             (\<not> get_cancel s' \<longrightarrow>
                d \<and> length (filter is_StartRender (calls s')) = length (filter is_StartRender (calls s)) \<and>
                status (progress s') = pass_name s @ '' finished'')
         | Blocked s' \<Rightarrow> False
         | Fault err \<Rightarrow> True"
proof -
  define s0 where "s0 = env_run (at_top e) s"
  have s0: "\<not> interactive (params s0)" "pass_name s0 = pass_name s"
      "filter is_Download (calls s0) = filter is_Download (calls s)"
      "filter is_StartRender (calls s0) = filter is_StartRender (calls s)"
      "filter is_ScenePush (calls s0) = filter is_ScenePush (calls s)"
    using assms(1) by (simp_all add: s0_def)
  have ri: "render_iteration e b d s =
              (if get_cancel s0 then Exit s0
               else if d then Exit (set_status (pass_name s0 @ '' finished'') (SubText [])
                                      (update_status_time False False s0))
               else render_body e b d s0)"
    using s0(1) by (simp add: render_iteration_def s0_def Let_def)
  show ?thesis
  proof (cases "get_cancel s0 \<or> d")
    case True
    then show ?thesis unfolding ri using s0 assms(2) by auto
  next
    case False
    then have eq: "render_iteration e b d s = render_body e b False s0"
      unfolding ri by simp
    note rb = render_body_offline [OF s0(1), where e = e and b = b]
    show ?thesis
    proof (cases "render_body e b False s0")
      case (Next b1 d1 s1)
      with rb s0 False show ?thesis unfolding eq by simp
    next
      case (Exit s1)
      with rb s0 False show ?thesis unfolding eq by simp
    next
      case (Blocked s1)
      with rb show ?thesis by simp
    next
      case (Fault err)
      then show ?thesis unfolding eq by simp
    qed
  qed
qed

lemma render_loop_offline:
  assumes "\<not> interactive (params s)" "d \<longrightarrow> b"
      and "outcome_session (render_loop es b d s) = Some s'"
  shows "filter is_Download (calls s') = filter is_Download (calls s) \<and>
         length (filter is_StartRender (calls s')) \<le>
           length (filter is_StartRender (calls s)) + (if b then 0 else 1) \<and>
         length (filter is_ScenePush (calls s')) \<le>
           length (filter is_ScenePush (calls s)) + (if b then 0 else 1) \<and>
         (render_loop es b d s = Finished s' \<and> \<not> get_cancel s' \<longrightarrow>
            length (filter is_StartRender (calls s')) =
              length (filter is_StartRender (calls s)) + (if b then 0 else 1) \<and>
            status (progress s') = pass_name s @ '' finished'')"
  using assms
proof (induction es arbitrary: b d s)
  case Nil
  then show ?case by simp
next
  case (Cons e es)
  note it = render_iteration_offline [OF Cons.prems(1,2), where e = e]
  show ?case
  proof (cases "render_iteration e b d s")
    case (Next b1 d1 s1)
    with it have n: "b1" "\<not> interactive (params s1)" "pass_name s1 = pass_name s"
        "filter is_Download (calls s1) = filter is_Download (calls s)"
        "length (filter is_StartRender (calls s1)) =
           length (filter is_StartRender (calls s)) + (if b then 0 else 1)"
        "length (filter is_ScenePush (calls s1)) \<le>
           length (filter is_ScenePush (calls s)) + (if b then 0 else 1)"
      by simp_all
    have rl: "render_loop (e # es) b d s = render_loop es b1 d1 s1"
      by (simp add: Next)
    have "outcome_session (render_loop es b1 d1 s1) = Some s'"
      using Cons.prems(3) unfolding rl .
    from Cons.IH [OF n(2) _ this] n(1)
    have ih: "filter is_Download (calls s') = filter is_Download (calls s1)"
        "length (filter is_StartRender (calls s')) \<le> length (filter is_StartRender (calls s1))"
        "length (filter is_ScenePush (calls s')) \<le> length (filter is_ScenePush (calls s1))"
        "render_loop es b1 d1 s1 = Finished s' \<and> \<not> get_cancel s' \<longrightarrow>
            length (filter is_StartRender (calls s')) = length (filter is_StartRender (calls s1)) \<and>
            status (progress s') = pass_name s1 @ '' finished''"
      by simp_all
    show ?thesis
      unfolding rl using ih n by auto
  next
    case (Exit s1)
    then have "s' = s1" using Cons.prems(3) by simp
    with it Exit Cons.prems(2) show ?thesis by auto
  next
    case (Blocked s1)
    with it show ?thesis by simp
  next
    case (Fault err)
    with Cons.prems(3) show ?thesis by simp
  qed
qed

lemma render_iteration_Next_done:
  "render_iteration e b d s = Next b' d' s' \<Longrightarrow> d' = done_pred s'"
  by (auto simp: render_iteration_def render_body_def Let_def
        split: if_splits sum.splits prod.splits)

lemma render_loop_done_offline:
  assumes "\<not> interactive (params s)"
  shows "render_loop (e # es) b True s =
           Finished (if get_cancel (env_run (at_top e) s) then env_run (at_top e) s
                     else set_status (pass_name s @ '' finished'') (SubText [])
                            (update_status_time False False (env_run (at_top e) s)))"
  using assms by (simp add: render_iteration_def Let_def)

lemma render_loop_single_Unfinished:
  assumes "render_loop [e] b d s = Unfinished b1 d1 s1"
  shows "render_iteration e b d s = Next b1 d1 s1"
  using assms by (cases "render_iteration e b d s") simp_all

lemma render_loop_single_Finished:
  assumes "render_loop [e] b d s = Finished s1"
  shows "render_iteration e b d s = Exit s1"
  using assms by (cases "render_iteration e b d s") simp_all

lemma run_render_start:
  assumes "\<not> interactive (params s)"
  shows "run_render now es s =
     render_loop es False False
       (s\<lparr>reset_time := now, start_time := now, paused_time := 0,
          params := (params s)\<lparr>image_stat := (image_stat (params s))\<lparr>uiCurSamples := 0\<rparr>\<rparr>\<rparr>)"
  using assms by (simp add: run_render_def Let_def)

text \<open>
  C1 (amended). In offline mode, once \<open>is_done\<close> is set (the done predicate held at the end
  of an iteration), the next iteration leaves the loop without a further buffer refresh:
  it runs no \<open>update_render_buffer\<close>, so no host callback and no download, no render start
  and no scene push; unless cancellation was requested it only refreshes the status text
  and sets the status to the pass name followed by " finished". The variable \<open>is_done\<close>
  with which an iteration ends is the done predicate of the session at that point.
\<close>

theorem offline_done_stops_without_refresh:
  assumes "\<not> interactive (params s)"
  shows "render_loop (e # es) b True s =
           Finished (if get_cancel (env_run (at_top e) s) then env_run (at_top e) s
                     else set_status (pass_name s @ '' finished'') (SubText [])
                            (update_status_time False False (env_run (at_top e) s))) \<and>
         map_option (filter is_render_call) (finished_calls (render_loop (e # es) b True s)) =
           Some (filter is_render_call (calls s)) \<and>
         (render_loop [e0] b0 d0 s0 = Unfinished b1 d1 s1 \<longrightarrow> d1 = done_pred s1)"
proof (intro conjI impI)
  show "render_loop (e # es) b True s =
           Finished (if get_cancel (env_run (at_top e) s) then env_run (at_top e) s
                     else set_status (pass_name s @ '' finished'') (SubText [])
                            (update_status_time False False (env_run (at_top e) s)))"
    by (rule render_loop_done_offline [OF assms])
next
  show "map_option (filter is_render_call) (finished_calls (render_loop (e # es) b True s)) =
           Some (filter is_render_call (calls s))"
    unfolding render_loop_done_offline [OF assms] by simp
next
  assume "render_loop [e0] b0 d0 s0 = Unfinished b1 d1 s1"
  then show "d1 = done_pred s1"
    by (intro render_iteration_Next_done render_loop_single_Unfinished)
qed

theorem offline_done_stops_without_refresh_witness:
  "\<not> interactive (params ex_offline) \<and>
   finished_calls (render_loop [ex_env] True True ex_offline) =
     Some [SetExportType NONE, SetOutputPath ''out'', CheckServerConnection, ProgressRefreshCurInfo] \<and>
   map_option (filter is_render_call) (finished_calls (render_loop [ex_env] True True ex_offline)) =
     Some [] \<and>
   unfinished_calls (render_loop [ex_env_reach] False False ex_offline) =
     Some (True, True,
           [SetExportType NONE, SetOutputPath ''out'', CameraTagUpdate, SceneServerUpdate False 0 0,
            StartRender 800 600 IMAGE_FLOAT False 0 0, HostUpdateRenderImg,
            CheckServerConnection, ProgressRefreshCurInfo,
            CheckServerConnection, ProgressRefreshCurInfo, ProgressSetUpdate]) \<and>
   map_option done_pred (outcome_session (render_loop [ex_env_reach] False False ex_offline)) =
     Some True"
proof -
  have h: "\<not> interactive (params ex_offline)"
    by (simp add: ex_defs)
  have u: "unfinished_calls (render_loop [ex_env_reach] False False ex_offline) =
     Some (True, True,
           [SetExportType NONE, SetOutputPath ''out'', CameraTagUpdate, SceneServerUpdate False 0 0,
            StartRender 800 600 IMAGE_FLOAT False 0 0, HostUpdateRenderImg,
            CheckServerConnection, ProgressRefreshCurInfo,
            CheckServerConnection, ProgressRefreshCurInfo, ProgressSetUpdate])"
    by (simp add: model_defs ex_defs Let_def)
  then obtain s1 where s1: "render_loop [ex_env_reach] False False ex_offline = Unfinished True True s1"
    by (cases "render_loop [ex_env_reach] False False ex_offline") auto
  note w = offline_done_stops_without_refresh [OF h, where e = ex_env and es = "[]" and b = True
             and ?e0.0 = ex_env_reach and ?b0.0 = False and ?d0.0 = False and ?s0.0 = ex_offline
             and ?b1.0 = True and ?d1.0 = True and ?s1.0 = s1]
  from w s1 have d: "done_pred s1" by blast
  from w have f: "render_loop [ex_env] True True ex_offline =
           Finished (if get_cancel (env_run (at_top ex_env) ex_offline)
                     then env_run (at_top ex_env) ex_offline
                     else set_status (pass_name ex_offline @ '' finished'') (SubText [])
                            (update_status_time False False (env_run (at_top ex_env) ex_offline)))"
    by blast
  have c: "finished_calls (render_loop [ex_env] True True ex_offline) =
     Some [SetExportType NONE, SetOutputPath ''out'', CheckServerConnection, ProgressRefreshCurInfo]"
    unfolding f by (simp add: ex_defs get_cancel_def)
  from h c u d s1 show ?thesis by simp
qed

text \<open>
  The claim as stated fails: in the offline run below the host callback reports 100 of 100
  samples in the first iteration, which therefore ends with \<open>is_done\<close> set; the second
  iteration leaves the loop and adds only the two calls of the status refresh. Between
  the point where the done predicate holds and the stop there is no pull of image data.
\<close>

theorem offline_no_final_refresh_counterexample:
  "unfinished_calls (run_render 0 [ex_env_reach] ex_offline) =
     Some (True, True,
           [SetExportType NONE, SetOutputPath ''out'', CameraTagUpdate, SceneServerUpdate False 0 0,
            StartRender 800 600 IMAGE_FLOAT False 0 0, HostUpdateRenderImg,
            CheckServerConnection, ProgressRefreshCurInfo,
            CheckServerConnection, ProgressRefreshCurInfo, ProgressSetUpdate]) \<and>
   finished_calls (run_render 0 [ex_env_reach, ex_env] ex_offline) =
     Some ([SetExportType NONE, SetOutputPath ''out'', CameraTagUpdate, SceneServerUpdate False 0 0,
            StartRender 800 600 IMAGE_FLOAT False 0 0, HostUpdateRenderImg,
            CheckServerConnection, ProgressRefreshCurInfo,
            CheckServerConnection, ProgressRefreshCurInfo, ProgressSetUpdate] @
           [CheckServerConnection, ProgressRefreshCurInfo]) \<and>
   finished_state (run_render 0 [ex_env_reach, ex_env] ex_offline) = Some (100, 100, False)"
  by (simp add: model_defs ex_defs Let_def)

lemma render_loop_append:
  "render_loop (es1 @ es2) b d s =
     (case render_loop es1 b d s of
        Unfinished b' d' s' \<Rightarrow> render_loop es2 b' d' s'
      | Finished s' \<Rightarrow> Finished s'
      | Suspended s' \<Rightarrow> Suspended s'
      | Crashed err \<Rightarrow> Crashed err)"
  by (induction es1 arbitrary: b d s) (simp_all split: step.splits)

lemma render_loop_offline_interactive:
  assumes "\<not> interactive (params s)" "d \<longrightarrow> b"
      and "render_loop es b d s = Unfinished b' d' s'"
  shows "\<not> interactive (params s')"
  using assms
proof (induction es arbitrary: b d s)
  case Nil
  then show ?case by simp
next
  case (Cons e es)
  note it = render_iteration_offline [OF Cons.prems(1,2), where e = e]
  show ?case
  proof (cases "render_iteration e b d s")
    case (Next b1 d1 s1)
    with it have n: "b1" "\<not> interactive (params s1)" by simp_all
    have "render_loop es b1 d1 s1 = Unfinished b' d' s'"
      using Cons.prems(3) by (simp add: Next)
    from Cons.IH [OF n(2) _ this] n(1) show ?thesis by simp
  qed (use Cons.prems(3) in simp_all)
qed

lemma update_scene_to_server_exact:
  assumes "scene s = Some sc"
  shows "\<exists>s'. update_scene_to_server e s = Inr s' \<and> params s' = params s \<and>
              server s' = server s \<and> b_session s' = b_session s \<and>
              pass_name s' = pass_name s \<and> get_cancel s' = get_cancel s \<and> scene s' \<noteq> None \<and>
              filter is_render_call (calls s') =
                filter is_render_call (calls s) @
                (if export_scene (params s) \<noteq> NONE \<or> need_update e
                 then [SceneServerUpdate (interactive (params s)) (frame_idx s) (total_frames s)]
                 else [])"
  using assms by (auto simp: update_scene_to_server_def prim_defs Let_def)

lemma update_img_sample_quiet:
  assumes "list_all quiet_event (host_update e)"
  shows "get_cancel (update_img_sample e s) = get_cancel s"
        "getServerErrorMessage (update_img_sample e s) = getServerErrorMessage s"
        "filter is_render_call (calls (update_img_sample e s)) =
           filter is_render_call (calls s) @ host_calls s"
  using assms
  by (simp_all add: update_img_sample_def host_calls_def env_run_has_cancel quiet_has_cancel
        env_run_getServerErrorMessage quiet_pending_error split: option.splits)

lemma render_iteration_quiet:
  assumes "\<not> interactive (params s)" "scene s \<noteq> None" "\<not> get_cancel s"
      and "getServerErrorMessage s = []" "quiet_env e"
  shows "\<exists>s'. render_iteration e b False s = Next True (done_pred s') s' \<and>
              \<not> interactive (params s') \<and> scene s' \<noteq> None \<and> \<not> get_cancel s' \<and>
              getServerErrorMessage s' = [] \<and> b_session s' = b_session s \<and>
              pass_name s' = pass_name s \<and>
              filter is_render_call (calls s') =
                filter is_render_call (calls s) @ (if b then [] else start_calls e s) @
                host_calls s"
proof -
  have q: "list_all quiet_event (at_top e)" "list_all quiet_event (before_check e)"
      "list_all quiet_event (before_notify e)" "list_all quiet_event (host_update e)"
    using assms(5) by (simp_all add: quiet_env_def)
  define s0 where "s0 = env_run (at_top e) s"
  have s0: "\<not> interactive (params s0)" "scene s0 \<noteq> None" "\<not> get_cancel s0"
      "getServerErrorMessage s0 = []" "b_session s0 = b_session s" "pass_name s0 = pass_name s"
      "filter is_render_call (calls s0) = filter is_render_call (calls s)"
      "start_calls e s0 = start_calls e s" "host_calls s0 = host_calls s"
    using assms(1-4) q(1)
    by (simp_all add: s0_def env_run_has_cancel quiet_has_cancel env_run_getServerErrorMessage
          quiet_pending_error start_calls_def host_calls_def image_type_def)
  have ri: "render_iteration e b False s = render_body e b False s0"
    using s0(1,3) by (simp add: render_iteration_def s0_def [symmetric] Let_def)
  from s0(2) obtain sc where sc: "scene s0 = Some sc" by auto
  from update_scene_to_server_exact [OF sc, of e]
  obtain s1 where s1: "update_scene_to_server e s0 = Inr s1" "params s1 = params s0"
      "server s1 = server s0" "b_session s1 = b_session s0" "pass_name s1 = pass_name s0"
      "get_cancel s1 = get_cancel s0" "scene s1 \<noteq> None"
      "filter is_render_call (calls s1) =
         filter is_render_call (calls s0) @
         (if export_scene (params s0) \<noteq> NONE \<or> need_update e
          then [SceneServerUpdate (interactive (params s0)) (frame_idx s0) (total_frames s0)]
          else [])"
    by blast
  define sx where "sx = (if \<not> b \<or> interactive (params s0) then s1 else s0)"
  have r0: "(if \<not> b \<or> interactive (params s0) then update_scene_to_server e s0 else Inr s0) =
              Inr sx"
    using s1(1) by (simp add: sx_def)
  define s2 where "s2 = (if \<not> b
                        then emit (StartRender (width (params sx)) (height (params sx))
                                     (image_type (params sx)) (out_of_core_enabled (params sx))
                                     (out_of_core_mem_limit (params sx))
                                     (out_of_core_gpu_headroom (params sx))) sx
                        else sx)"
  have s2: "\<not> interactive (params s2)" "scene s2 \<noteq> None" "\<not> get_cancel s2"
      "getServerErrorMessage s2 = []" "b_session s2 = b_session s" "pass_name s2 = pass_name s"
      "filter is_render_call (calls s2) =
         filter is_render_call (calls s) @ (if b then [] else start_calls e s)"
    using s0 s1(2-8)
    by (simp_all add: s2_def sx_def getServerErrorMessage_def start_calls_def image_type_def)
  define s3 where "s3 = env_run (before_check e) s2"
  have s3: "\<not> interactive (params s3)" "scene s3 \<noteq> None" "\<not> get_cancel s3"
      "getServerErrorMessage s3 = []" "b_session s3 = b_session s" "pass_name s3 = pass_name s"
      "filter is_render_call (calls s3) =
         filter is_render_call (calls s) @ (if b then [] else start_calls e s)"
    using s2 q(2)
    by (simp_all add: s3_def env_run_has_cancel quiet_has_cancel env_run_getServerErrorMessage
          quiet_pending_error)
  define s4 where "s4 = env_run (before_notify e) s3"
  have s4: "\<not> interactive (params s4)" "scene s4 \<noteq> None" "\<not> get_cancel s4"
      "getServerErrorMessage s4 = []" "b_session s4 = b_session s" "pass_name s4 = pass_name s"
      "filter is_render_call (calls s4) =
         filter is_render_call (calls s) @ (if b then [] else start_calls e s)"
    using s3 q(3)
    by (simp_all add: s4_def env_run_has_cancel quiet_has_cancel env_run_getServerErrorMessage
          quiet_pending_error)
  define s5 where "s5 = update_img_sample e s4"
  have urb: "update_render_buffer e s3 = Inr s5"
    using s3(1,2,3) q(3)
    by (auto simp: update_render_buffer_offline quiet_has_cancel s4_def s5_def)
  have s5: "\<not> interactive (params s5)" "scene s5 \<noteq> None" "\<not> get_cancel s5"
      "getServerErrorMessage s5 = []" "b_session s5 = b_session s" "pass_name s5 = pass_name s"
      "filter is_render_call (calls s5) =
         filter is_render_call (calls s) @ (if b then [] else start_calls e s) @ host_calls s"
    using s4 update_img_sample_quiet [OF q(4), of s4]
    by (simp_all add: s5_def host_calls_def)
  define s7 where "s7 = emit ProgressSetUpdate (update_status_time False False s5)"
  have s7: "\<not> interactive (params s7)" "scene s7 \<noteq> None" "\<not> get_cancel s7"
      "getServerErrorMessage s7 = []" "b_session s7 = b_session s" "pass_name s7 = pass_name s"
      "filter is_render_call (calls s7) =
         filter is_render_call (calls s) @ (if b then [] else start_calls e s) @ host_calls s"
    using s5 by (simp_all add: s7_def)
  have "render_body e b False s0 = Next True (done_pred s7) s7"
    using r0 s3(3,4) urb s5(4)
    by (simp add: render_body_def Let_def s2_def [symmetric] s3_def [symmetric]
          check_server_error_none s7_def
        del: if_not_P if_P)
  with ri s7 show ?thesis by metis
qed

lemma replicate_host_calls:
  "xs @ concat (replicate n xs) = concat (replicate (Suc n) xs)"
  by simp

lemma render_loop_quiet:
  assumes "\<not> interactive (params s)" "scene s \<noteq> None" "\<not> get_cancel s"
      and "getServerErrorMessage s = []" "list_all quiet_env es"
  shows "(\<forall>b' d' s'. render_loop es b False s = Unfinished b' d' s' \<longrightarrow>
            filter is_render_call (calls s') =
              filter is_render_call (calls s) @
              (if b \<or> es = [] then [] else start_calls (hd es) s) @
              concat (replicate (length es) (host_calls s)) \<and>
            b' = (b \<or> es \<noteq> []) \<and> d' = (es \<noteq> [] \<and> done_pred s')) \<and>
         (\<forall>s'. render_loop es b False s = Finished s' \<longrightarrow>
            (\<exists>n. 0 < n \<and> n < length es \<and>
                 filter is_render_call (calls s') =
                   filter is_render_call (calls s) @
                   (if b then [] else start_calls (hd es) s) @
                   concat (replicate n (host_calls s)) \<and>
                 \<not> get_cancel s' \<and> status (progress s') = pass_name s @ '' finished'' \<and>
                 (\<exists>s''. render_loop (take n es) b False s = Unfinished True True s'' \<and>
                        done_pred s''))) \<and>
         (\<forall>s'. render_loop es b False s \<noteq> Suspended s') \<and>
         (\<forall>err. render_loop es b False s \<noteq> Crashed err)"
  using assms
proof (induction es arbitrary: b s)
  case Nil
  show ?case by simp
next
  case (Cons e es)
  have qe: "quiet_env e" and qes: "list_all quiet_env es"
    using Cons.prems(5) by simp_all
  from render_iteration_quiet [OF Cons.prems(1-4) qe, of b]
  obtain s1 where s1: "render_iteration e b False s = Next True (done_pred s1) s1"
      "\<not> interactive (params s1)" "scene s1 \<noteq> None" "\<not> get_cancel s1"
      "getServerErrorMessage s1 = []" "b_session s1 = b_session s" "pass_name s1 = pass_name s"
      "filter is_render_call (calls s1) =
         filter is_render_call (calls s) @ (if b then [] else start_calls e s) @ host_calls s"
    by blast
  have hc: "host_calls s1 = host_calls s"
    using s1(6) by (simp add: host_calls_def)
  have rl: "render_loop (e # es) b False s = render_loop es True (done_pred s1) s1"
    by (simp add: s1(1))
  have one: "render_loop [e] b False s = Unfinished True (done_pred s1) s1"
    by (simp add: s1(1))
  show ?case
  proof (cases "done_pred s1")
    case dn: True
    show ?thesis
    proof (cases es)
      case Nil
      then show ?thesis
        using rl dn s1(8) by simp
    next
      case (Cons e2 es2)
      have q2: "list_all quiet_event (at_top e2)"
        using qes Cons by (simp add: quiet_env_def)
      define s0 where "s0 = env_run (at_top e2) s1"
      have s0: "\<not> get_cancel s0" "pass_name s0 = pass_name s"
          "filter is_render_call (calls s0) = filter is_render_call (calls s1)"
        using s1(4,7) q2 by (simp_all add: s0_def env_run_has_cancel quiet_has_cancel)
      define sf where "sf = set_status (pass_name s1 @ '' finished'') (SubText [])
                              (update_status_time False False s0)"
      have "render_loop es True True s1 = Finished sf"
        unfolding Cons render_loop_done_offline [OF s1(2)] using s0(1)
        by (simp add: s0_def sf_def)
      then have fin: "render_loop (e # es) b False s = Finished sf"
        using rl dn by simp
      have sf: "\<not> get_cancel sf" "status (progress sf) = pass_name s @ '' finished''"
          "filter is_render_call (calls sf) = filter is_render_call (calls s1)"
        using s0 s1(7) by (simp_all add: sf_def)
      have "0 < (1::nat) \<and> 1 < length (e # es) \<and>
            filter is_render_call (calls sf) =
              filter is_render_call (calls s) @
              (if b then [] else start_calls (hd (e # es)) s) @
              concat (replicate 1 (host_calls s)) \<and>
            \<not> get_cancel sf \<and> status (progress sf) = pass_name s @ '' finished'' \<and>
            (\<exists>s''. render_loop (take 1 (e # es)) b False s = Unfinished True True s'' \<and>
                   done_pred s'')"
        using sf s1(8) one dn Cons by simp
      then have "\<exists>n. 0 < n \<and> n < length (e # es) \<and>
            filter is_render_call (calls sf) =
              filter is_render_call (calls s) @
              (if b then [] else start_calls (hd (e # es)) s) @
              concat (replicate n (host_calls s)) \<and>
            \<not> get_cancel sf \<and> status (progress sf) = pass_name s @ '' finished'' \<and>
            (\<exists>s''. render_loop (take n (e # es)) b False s = Unfinished True True s'' \<and>
                   done_pred s'')"
        by blast
      then show ?thesis
        unfolding fin by simp
    qed
  next
    case nd: False
    have rl': "render_loop (e # es) b False s = render_loop es True False s1"
      using rl nd by simp
    note ih = Cons.IH [OF s1(2-5) qes, of True]
    have u: "\<forall>b' d' s'. render_loop (e # es) b False s = Unfinished b' d' s' \<longrightarrow>
            filter is_render_call (calls s') =
              filter is_render_call (calls s) @
              (if b \<or> e # es = [] then [] else start_calls (hd (e # es)) s) @
              concat (replicate (length (e # es)) (host_calls s)) \<and>
            b' = (b \<or> e # es \<noteq> []) \<and> d' = (e # es \<noteq> [] \<and> done_pred s')"
    proof (intro allI impI)
      fix b' d' s'
      assume "render_loop (e # es) b False s = Unfinished b' d' s'"
      then have a: "render_loop es True False s1 = Unfinished b' d' s'"
        unfolding rl' .
      with ih have i: "filter is_render_call (calls s') =
              filter is_render_call (calls s1) @ concat (replicate (length es) (host_calls s1))"
          "b'" "d' = (es \<noteq> [] \<and> done_pred s')"
        by simp_all
      have "es = [] \<Longrightarrow> s' = s1 \<and> \<not> d'"
        using a by simp
      then have d: "d' = done_pred s'"
        using i(3) nd by (cases "es = []") simp_all
      show "filter is_render_call (calls s') =
              filter is_render_call (calls s) @
              (if b \<or> e # es = [] then [] else start_calls (hd (e # es)) s) @
              concat (replicate (length (e # es)) (host_calls s)) \<and>
            b' = (b \<or> e # es \<noteq> []) \<and> d' = (e # es \<noteq> [] \<and> done_pred s')"
        using i(1,2) d s1(8) hc by simp
    qed
    have f: "\<forall>s'. render_loop (e # es) b False s = Finished s' \<longrightarrow>
            (\<exists>n. 0 < n \<and> n < length (e # es) \<and>
                 filter is_render_call (calls s') =
                   filter is_render_call (calls s) @
                   (if b then [] else start_calls (hd (e # es)) s) @
                   concat (replicate n (host_calls s)) \<and>
                 \<not> get_cancel s' \<and> status (progress s') = pass_name s @ '' finished'' \<and>
                 (\<exists>s''. render_loop (take n (e # es)) b False s = Unfinished True True s'' \<and>
                        done_pred s''))"
    proof (intro allI impI)
      fix s'
      assume "render_loop (e # es) b False s = Finished s'"
      then have "render_loop es True False s1 = Finished s'"
        unfolding rl' .
      with ih obtain n s'' where n: "0 < n" "n < length es"
          "filter is_render_call (calls s') =
             filter is_render_call (calls s1) @ concat (replicate n (host_calls s1))"
          "\<not> get_cancel s'" "status (progress s') = pass_name s1 @ '' finished''"
          "render_loop (take n es) True False s1 = Unfinished True True s''" "done_pred s''"
        by auto
      have tk: "render_loop (take (Suc n) (e # es)) b False s = Unfinished True True s''"
        using n(6) s1(1) nd by simp
      have "0 < Suc n \<and> Suc n < length (e # es) \<and>
                 filter is_render_call (calls s') =
                   filter is_render_call (calls s) @
                   (if b then [] else start_calls (hd (e # es)) s) @
                   concat (replicate (Suc n) (host_calls s)) \<and>
                 \<not> get_cancel s' \<and> status (progress s') = pass_name s @ '' finished'' \<and>
                 (\<exists>s''. render_loop (take (Suc n) (e # es)) b False s = Unfinished True True s'' \<and>
                        done_pred s'')"
        using n(1-5,7) tk s1(7,8) hc by auto
      then show "\<exists>n. 0 < n \<and> n < length (e # es) \<and>
                 filter is_render_call (calls s') =
                   filter is_render_call (calls s) @
                   (if b then [] else start_calls (hd (e # es)) s) @
                   concat (replicate n (host_calls s)) \<and>
                 \<not> get_cancel s' \<and> status (progress s') = pass_name s @ '' finished'' \<and>
                 (\<exists>s''. render_loop (take n (e # es)) b False s = Unfinished True True s'' \<and>
                        done_pred s'')"
        by blast
    qed
    have n: "(\<forall>s'. render_loop (e # es) b False s \<noteq> Suspended s') \<and>
             (\<forall>err. render_loop (e # es) b False s \<noteq> Crashed err)"
      unfolding rl' using ih by blast
    from u f n show ?thesis by blast
  qed
qed

text \<open>
  C2 (amended). For an offline session the render calls of the loop are these. Whatever
  the environment does, the loop itself never calls \<open>downloadImageBuffer\<close> (line 493
  calls it only when the session is interactive), calls \<open>startRender\<close> at most once and
  pushes the scene at most once; when the loop is left without cancellation, \<open>startRender\<close>
  has been called exactly once and the status is the pass name followed by " finished";
  while \<open>is_done\<close> is not set, the loop is left only by cancellation. When no
  cancellation is requested and no engine error is reported, the render calls of a run are
  exactly: in the first iteration the scene push (when the scene is exported or reports an
  update) and after it the one render start, and in every iteration one notification of the
  host callback when a host session is attached, nothing else; the loop goes on as long as
  the done predicate fails at the end of the iteration, and it is left, not cancelled and
  with the status " finished", in the iteration after the first one at whose end the sample
  count has reached the target. Once \<open>is_done\<close> is set, any further iteration leaves the
  loop and adds no render call: no scene push, no render start, no host callback.
\<close>

theorem offline_run_calls:
  assumes "\<not> interactive (params s)"
  shows "(outcome_session (run_render now es s) = Some s' \<longrightarrow>
            filter is_Download (calls s') = filter is_Download (calls s) \<and>
            length (filter is_StartRender (calls s')) \<le>
              length (filter is_StartRender (calls s)) + 1 \<and>
            length (filter is_ScenePush (calls s')) \<le>
              length (filter is_ScenePush (calls s)) + 1 \<and>
            (run_render now es s = Finished s' \<and> \<not> get_cancel s' \<longrightarrow>
               length (filter is_StartRender (calls s')) =
                 length (filter is_StartRender (calls s)) + 1 \<and>
               status (progress s') = pass_name s @ '' finished'')) \<and>
         (render_loop [e] b False s = Finished s2 \<longrightarrow> get_cancel s2) \<and>
         (scene s \<noteq> None \<and> \<not> get_cancel s \<and> getServerErrorMessage s = [] \<and>
          list_all quiet_env es \<longrightarrow>
            (\<forall>b' d' su. run_render now es s = Unfinished b' d' su \<longrightarrow>
               filter is_render_call (calls su) =
                 filter is_render_call (calls s) @
                 (if es = [] then [] else start_calls (hd es) s) @
                 concat (replicate (length es) (host_calls s)) \<and>
               b' = (es \<noteq> []) \<and> d' = (es \<noteq> [] \<and> done_pred su)) \<and>
            (\<forall>sf. run_render now es s = Finished sf \<longrightarrow>
               (\<exists>n. 0 < n \<and> n < length es \<and>
                    filter is_render_call (calls sf) =
                      filter is_render_call (calls s) @ start_calls (hd es) s @
                      concat (replicate n (host_calls s)) \<and>
                    \<not> get_cancel sf \<and> status (progress sf) = pass_name s @ '' finished'' \<and>
                    (\<exists>sn. run_render now (take n es) s = Unfinished True True sn \<and>
                          done_pred sn))) \<and>
            (\<forall>sx. run_render now es s \<noteq> Suspended sx) \<and>
            (\<forall>err. run_render now es s \<noteq> Crashed err)) \<and>
         (run_render now es s = Unfinished b1 True s1 \<longrightarrow>
            (\<exists>sf. run_render now (es @ e1 # es1) s = Finished sf \<and>
                  filter is_render_call (calls sf) = filter is_render_call (calls s1)))"
proof -
  define s0 where "s0 = s\<lparr>reset_time := now, start_time := now, paused_time := 0,
          params := (params s)\<lparr>image_stat := (image_stat (params s))\<lparr>uiCurSamples := 0\<rparr>\<rparr>\<rparr>"
  have rr: "run_render now xs s = render_loop xs False False s0" for xs
    unfolding s0_def by (rule run_render_start [OF assms(1)])
  have s0: "\<not> interactive (params s0)" "calls s0 = calls s" "pass_name s0 = pass_name s"
      "scene s0 = scene s" "get_cancel s0 = get_cancel s"
      "getServerErrorMessage s0 = getServerErrorMessage s" "host_calls s0 = host_calls s"
      "start_calls x s0 = start_calls x s" for x
    using assms(1)
    by (simp_all add: s0_def getServerErrorMessage_def get_cancel_def host_calls_def
          start_calls_def image_type_def)
  have main: "outcome_session (run_render now es s) = Some s' \<longrightarrow>
            filter is_Download (calls s') = filter is_Download (calls s) \<and>
            length (filter is_StartRender (calls s')) \<le>
              length (filter is_StartRender (calls s)) + 1 \<and>
            length (filter is_ScenePush (calls s')) \<le>
              length (filter is_ScenePush (calls s)) + 1 \<and>
            (run_render now es s = Finished s' \<and> \<not> get_cancel s' \<longrightarrow>
               length (filter is_StartRender (calls s')) =
                 length (filter is_StartRender (calls s)) + 1 \<and>
               status (progress s') = pass_name s @ '' finished'')"
  proof
    assume "outcome_session (run_render now es s) = Some s'"
    then have o: "outcome_session (render_loop es False False s0) = Some s'"
      unfolding rr .
    show "filter is_Download (calls s') = filter is_Download (calls s) \<and>
            length (filter is_StartRender (calls s')) \<le>
              length (filter is_StartRender (calls s)) + 1 \<and>
            length (filter is_ScenePush (calls s')) \<le>
              length (filter is_ScenePush (calls s)) + 1 \<and>
            (run_render now es s = Finished s' \<and> \<not> get_cancel s' \<longrightarrow>
               length (filter is_StartRender (calls s')) =
                 length (filter is_StartRender (calls s)) + 1 \<and>
               status (progress s') = pass_name s @ '' finished'')"
      using render_loop_offline [OF s0(1) _ o] s0(2,3) unfolding rr by simp
  qed
  have last: "render_loop [e] b False s = Finished s2 \<longrightarrow> get_cancel s2"
  proof
    assume "render_loop [e] b False s = Finished s2"
    then have "render_iteration e b False s = Exit s2"
      by (rule render_loop_single_Finished)
    with render_iteration_offline [OF assms(1), where d = False and b = b and e = e]
    show "get_cancel s2" by auto
  qed
  have quiet: "scene s \<noteq> None \<and> \<not> get_cancel s \<and> getServerErrorMessage s = [] \<and>
          list_all quiet_env es \<longrightarrow>
            (\<forall>b' d' su. run_render now es s = Unfinished b' d' su \<longrightarrow>
               filter is_render_call (calls su) =
                 filter is_render_call (calls s) @
                 (if es = [] then [] else start_calls (hd es) s) @
                 concat (replicate (length es) (host_calls s)) \<and>
               b' = (es \<noteq> []) \<and> d' = (es \<noteq> [] \<and> done_pred su)) \<and>
            (\<forall>sf. run_render now es s = Finished sf \<longrightarrow>
               (\<exists>n. 0 < n \<and> n < length es \<and>
                    filter is_render_call (calls sf) =
                      filter is_render_call (calls s) @ start_calls (hd es) s @
                      concat (replicate n (host_calls s)) \<and>
                    \<not> get_cancel sf \<and> status (progress sf) = pass_name s @ '' finished'' \<and>
                    (\<exists>sn. run_render now (take n es) s = Unfinished True True sn \<and>
                          done_pred sn))) \<and>
            (\<forall>sx. run_render now es s \<noteq> Suspended sx) \<and>
            (\<forall>err. run_render now es s \<noteq> Crashed err)"
  proof
    assume h: "scene s \<noteq> None \<and> \<not> get_cancel s \<and> getServerErrorMessage s = [] \<and>
               list_all quiet_env es"
    have h0: "scene s0 \<noteq> None" "\<not> get_cancel s0" "getServerErrorMessage s0 = []"
      using h s0(4-6) by simp_all
    from h have q: "list_all quiet_env es" by simp
    from render_loop_quiet [OF s0(1) h0 q, of False]
    show "(\<forall>b' d' su. run_render now es s = Unfinished b' d' su \<longrightarrow>
               filter is_render_call (calls su) =
                 filter is_render_call (calls s) @
                 (if es = [] then [] else start_calls (hd es) s) @
                 concat (replicate (length es) (host_calls s)) \<and>
               b' = (es \<noteq> []) \<and> d' = (es \<noteq> [] \<and> done_pred su)) \<and>
            (\<forall>sf. run_render now es s = Finished sf \<longrightarrow>
               (\<exists>n. 0 < n \<and> n < length es \<and>
                    filter is_render_call (calls sf) =
                      filter is_render_call (calls s) @ start_calls (hd es) s @
                      concat (replicate n (host_calls s)) \<and>
                    \<not> get_cancel sf \<and> status (progress sf) = pass_name s @ '' finished'' \<and>
                    (\<exists>sn. run_render now (take n es) s = Unfinished True True sn \<and>
                          done_pred sn))) \<and>
            (\<forall>sx. run_render now es s \<noteq> Suspended sx) \<and>
            (\<forall>err. run_render now es s \<noteq> Crashed err)"
      unfolding rr s0(2,3,7,8) simp_thms if_False .
  qed
  have stop: "run_render now es s = Unfinished b1 True s1 \<longrightarrow>
            (\<exists>sf. run_render now (es @ e1 # es1) s = Finished sf \<and>
                  filter is_render_call (calls sf) = filter is_render_call (calls s1))"
  proof
    assume "run_render now es s = Unfinished b1 True s1"
    then have u: "render_loop es False False s0 = Unfinished b1 True s1"
      unfolding rr .
    have off: "\<not> interactive (params s1)"
      by (rule render_loop_offline_interactive [OF s0(1) _ u]) simp
    define sf where "sf = (if get_cancel (env_run (at_top e1) s1) then env_run (at_top e1) s1
                     else set_status (pass_name s1 @ '' finished'') (SubText [])
                            (update_status_time False False (env_run (at_top e1) s1)))"
    have "render_loop (es @ e1 # es1) False False s0 = render_loop (e1 # es1) b1 True s1"
      unfolding render_loop_append u by simp
    then have "run_render now (es @ e1 # es1) s = Finished sf"
      unfolding rr render_loop_done_offline [OF off] sf_def .
    moreover have "filter is_render_call (calls sf) = filter is_render_call (calls s1)"
      by (simp add: sf_def)
    ultimately show "\<exists>sf. run_render now (es @ e1 # es1) s = Finished sf \<and>
                  filter is_render_call (calls sf) = filter is_render_call (calls s1)"
      by blast
  qed
  from main last quiet stop show ?thesis by blast
qed

theorem offline_run_calls_witness:
  "\<not> interactive (params ex_offline) \<and> scene ex_offline \<noteq> None \<and> \<not> get_cancel ex_offline \<and>
   getServerErrorMessage ex_offline = [] \<and>
   list_all quiet_env [ex_env_half, ex_env_reach, ex_env] \<and>
   run_render 0 [ex_env_half, ex_env_reach, ex_env] ex_offline =
     Finished (the (outcome_session (run_render 0 [ex_env_half, ex_env_reach, ex_env] ex_offline))) \<and>
   filter is_Download
     (calls (the (outcome_session (run_render 0 [ex_env_half, ex_env_reach, ex_env] ex_offline)))) = [] \<and>
   filter is_render_call
     (calls (the (outcome_session (run_render 0 [ex_env_half, ex_env_reach, ex_env] ex_offline)))) =
     [SceneServerUpdate False 0 0, StartRender 800 600 IMAGE_FLOAT False 0 0,
      HostUpdateRenderImg, HostUpdateRenderImg] \<and>
   \<not> get_cancel (the (outcome_session (run_render 0 [ex_env_half, ex_env_reach, ex_env] ex_offline))) \<and>
   status (progress (the (outcome_session
     (run_render 0 [ex_env_half, ex_env_reach, ex_env] ex_offline)))) = ''Combined finished'' \<and>
   (\<exists>s1 sf. run_render 0 [ex_env_half, ex_env_reach] ex_offline = Unfinished True True s1 \<and>
            run_render 0 ([ex_env_half, ex_env_reach] @ [ex_env]) ex_offline = Finished sf \<and>
            filter is_render_call (calls sf) = filter is_render_call (calls s1)) \<and>
   finished_state (render_loop [ex_env_error] False False ex_offline) = Some (0, 100, True)"
proof -
  define R where "R = run_render 0 [ex_env_half, ex_env_reach, ex_env] ex_offline"
  define s' where "s' = the (outcome_session R)"
  have h: "\<not> interactive (params ex_offline)"
    by (simp add: ex_defs)
  have hq: "scene ex_offline \<noteq> None" "\<not> get_cancel ex_offline"
      "getServerErrorMessage ex_offline = []"
      "list_all quiet_env [ex_env_half, ex_env_reach, ex_env]"
    by (simp_all add: ex_defs getServerErrorMessage_def get_cancel_def quiet_env_def)
  have fs: "finished_state R = Some (100, 100, False)"
    unfolding R_def by (simp add: model_defs ex_defs Let_def)
  then obtain sx where "R = Finished sx"
    by (cases R) auto
  then have R: "R = Finished s'" "outcome_session R = Some s'"
    by (simp_all add: s'_def)
  have e: "finished_state (render_loop [ex_env_error] False False ex_offline) = Some (0, 100, True)"
    by (simp add: model_defs ex_defs Let_def)
  have u1: "map_option (\<lambda>(b, d, cs). (b, d)) (unfinished_calls (run_render 0 [ex_env_half] ex_offline)) =
              Some (True, False)"
    by (simp add: model_defs ex_defs Let_def)
  have u2: "map_option (\<lambda>(b, d, cs). (b, d))
              (unfinished_calls (run_render 0 [ex_env_half, ex_env_reach] ex_offline)) =
              Some (True, True)"
    by (simp add: model_defs ex_defs Let_def)
  then obtain s1 where s1: "run_render 0 [ex_env_half, ex_env_reach] ex_offline =
                              Unfinished True True s1"
    by (cases "run_render 0 [ex_env_half, ex_env_reach] ex_offline") auto
  have c0: "filter is_Download (calls ex_offline) = []"
      "filter is_render_call (calls ex_offline) = []"
      "pass_name ex_offline = ''Combined''"
      "start_calls ex_env_half ex_offline =
         [SceneServerUpdate False 0 0, StartRender 800 600 IMAGE_FLOAT False 0 0]"
      "host_calls ex_offline = [HostUpdateRenderImg]"
    by (simp_all add: ex_defs start_calls_def host_calls_def image_type_def)
  note w = offline_run_calls [OF h, where now = 0 and es = "[ex_env_half, ex_env_reach, ex_env]"
             and s' = s' and e = ex_env_error and b = False]
  note w2 = offline_run_calls [OF h, where now = 0 and es = "[ex_env_half, ex_env_reach]"
             and ?b1.0 = True and ?s1.0 = s1 and ?e1.0 = ex_env and ?es1.0 = "[]"]
  from w R [unfolded R_def] c0(1) fs
  have d: "filter is_Download (calls s') = []"
    by simp
  from w hq
  have q: "\<forall>sf. run_render 0 [ex_env_half, ex_env_reach, ex_env] ex_offline = Finished sf \<longrightarrow>
               (\<exists>n. 0 < n \<and> n < length [ex_env_half, ex_env_reach, ex_env] \<and>
                    filter is_render_call (calls sf) =
                      filter is_render_call (calls ex_offline) @
                      start_calls (hd [ex_env_half, ex_env_reach, ex_env]) ex_offline @
                      concat (replicate n (host_calls ex_offline)) \<and>
                    \<not> get_cancel sf \<and>
                    status (progress sf) = pass_name ex_offline @ '' finished'' \<and>
                    (\<exists>sn. run_render 0 (take n [ex_env_half, ex_env_reach, ex_env]) ex_offline =
                            Unfinished True True sn \<and> done_pred sn))"
    by blast
  from q R(1) [unfolded R_def]
  obtain n sn where n0: "0 < n" "n < length [ex_env_half, ex_env_reach, ex_env]"
      "filter is_render_call (calls s') =
         filter is_render_call (calls ex_offline) @
         start_calls (hd [ex_env_half, ex_env_reach, ex_env]) ex_offline @
         concat (replicate n (host_calls ex_offline))"
      "\<not> get_cancel s'" "status (progress s') = pass_name ex_offline @ '' finished''"
      "run_render 0 (take n [ex_env_half, ex_env_reach, ex_env]) ex_offline =
         Unfinished True True sn"
    by blast
  then have n: "0 < n" "n < 3"
      "filter is_render_call (calls s') =
         filter is_render_call (calls ex_offline) @ start_calls ex_env_half ex_offline @
         concat (replicate n (host_calls ex_offline))"
      "\<not> get_cancel s'" "status (progress s') = pass_name ex_offline @ '' finished''"
      "run_render 0 (take n [ex_env_half, ex_env_reach, ex_env]) ex_offline =
         Unfinished True True sn"
    by simp_all
  have "n \<noteq> 1"
    using n(6) u1 by auto
  with n(1,2) have n2: "n = 2" by simp
  have rc: "filter is_render_call (calls s') =
     [SceneServerUpdate False 0 0, StartRender 800 600 IMAGE_FLOAT False 0 0,
      HostUpdateRenderImg, HostUpdateRenderImg]"
    using n(3) unfolding n2 c0 by (simp add: numeral_2_eq_2)
  from w2
  have "run_render 0 [ex_env_half, ex_env_reach] ex_offline = Unfinished True True s1 \<longrightarrow>
          (\<exists>sf. run_render 0 ([ex_env_half, ex_env_reach] @ ex_env # []) ex_offline = Finished sf \<and>
                filter is_render_call (calls sf) = filter is_render_call (calls s1))"
    by blast
  with s1 obtain sf where sf:
      "run_render 0 ([ex_env_half, ex_env_reach] @ [ex_env]) ex_offline = Finished sf"
      "filter is_render_call (calls sf) = filter is_render_call (calls s1)"
    by blast
  have ex: "\<exists>s1 sf. run_render 0 [ex_env_half, ex_env_reach] ex_offline = Unfinished True True s1 \<and>
            run_render 0 ([ex_env_half, ex_env_reach] @ [ex_env]) ex_offline = Finished sf \<and>
            filter is_render_call (calls sf) = filter is_render_call (calls s1)"
    using s1 sf by blast
  from h hq R(1) d rc n(4,5) c0(3) ex e show ?thesis
    unfolding s'_def R_def by simp
qed

text \<open>
  The claim as stated fails, on the calls this file makes. An offline session keeps going
  without a single \<open>downloadImageBuffer\<close> call: with no host session attached, three
  iterations make the scene push and the render start and nothing else, and the target is
  not reached; with a host session whose callback writes no statistics, the three
  iterations make three host callbacks and no download, and the target is not reached
  either. When the host callback writes 50 and then 100 samples into the statistics, the
  run reaches 100 of 100 samples in two iterations and leaves the loop in the third, not
  cancelled, again with no \<open>downloadImageBuffer\<close> among its calls. What the host callback
  \<open>update_render_img\<close> does to obtain the image is code outside this file and is not part
  of the trace.
\<close>

theorem offline_no_download_counterexample:
  "map_option (\<lambda>(b, d, cs). (b, d, filter is_render_call cs))
     (unfinished_calls (run_render 0 [ex_env, ex_env, ex_env] (ex_offline\<lparr>b_session := None\<rparr>))) =
     Some (True, False,
           [SceneServerUpdate False 0 0, StartRender 800 600 IMAGE_FLOAT False 0 0]) \<and>
   map_option (\<lambda>(b, d, cs). (b, d, filter is_render_call cs))
     (unfinished_calls (run_render 0 [ex_env, ex_env, ex_env] ex_offline)) =
     Some (True, False,
           [SceneServerUpdate False 0 0, StartRender 800 600 IMAGE_FLOAT False 0 0,
            HostUpdateRenderImg, HostUpdateRenderImg, HostUpdateRenderImg]) \<and>
   finished_calls (run_render 0 [ex_env_half, ex_env_reach, ex_env] ex_offline) =
     Some [SetExportType NONE, SetOutputPath ''out'', CameraTagUpdate, SceneServerUpdate False 0 0,
           StartRender 800 600 IMAGE_FLOAT False 0 0,
           HostUpdateRenderImg, CheckServerConnection, ProgressRefreshCurInfo,
           CheckServerConnection, ProgressRefreshCurInfo, ProgressSetUpdate,
           HostUpdateRenderImg, CheckServerConnection, ProgressRefreshCurInfo,
           CheckServerConnection, ProgressRefreshCurInfo, ProgressSetUpdate,
           CheckServerConnection, ProgressRefreshCurInfo] \<and>
   map_option (filter is_Download)
     (finished_calls (run_render 0 [ex_env_half, ex_env_reach, ex_env] ex_offline)) = Some [] \<and>
   finished_state (run_render 0 [ex_env_half, ex_env_reach, ex_env] ex_offline) =
     Some (100, 100, False)"
  by (simp add: model_defs ex_defs Let_def)

end
